theory Spec2Isabelle
  imports Complex_Main
begin

section \<open>The MicroMentor training script\<close>

text \<open>
  A shallow embedding of \<^verbatim>\<open>train_model.py\<close>: the class \<^verbatim>\<open>MicroMentorTrainer\<close> and
  \<^verbatim>\<open>main\<close>. The script orchestrates TensorFlow/Keras, NumPy, \<^verbatim>\<open>json\<close>, \<^verbatim>\<open>os\<close> and
  \<^verbatim>\<open>time\<close>. The script's own control flow, constants and state updates are translated
  line by line. What the libraries and the machine decide (random draws, clock readings,
  pretrained weights, gradients, serialised bytes) is not in the repository: it is
  read from an environment record, and every theorem holds for all environments unless
  it says otherwise.
\<close>

subsection \<open>Errors\<close>

datatype error =
    FileNotFoundError string
  | FileExistsError string
  | IsADirectoryError string
  | NotADirectoryError string
  | JSONDecodeError
  | KeyError string
  | TypeError
  | AttributeError string
  | IndexError
  | ValueError
  | RuntimeError
  | DownloadError

subsection \<open>JSON documents\<close>

text \<open>
  The configuration is a dictionary from string keys to primitive values. A Python dictionary
  keeps its keys in insertion order, so it is an association list with distinct keys.
  Characters are 8-bit; floating-point members are outside the model.

  \<^verbatim>\<open>json.dump(d, f, indent=2)\<close> and \<^verbatim>\<open>json.load(f)\<close> are modelled on the documents the
  script exchanges: one object whose members are strings, integers, booleans or null.
  The reader reports any other text as a decoding error.
\<close>

datatype jvalue = JNull | JBool bool | JInt int | JStr string
type_synonym pydict = "(string \<times> jvalue) list"

fun decimal :: "nat \<Rightarrow> string" where
  "decimal n = (if n < 10 then [''0123456789'' ! n] else decimal (n div 10) @ [''0123456789'' ! (n mod 10)])"
declare decimal.simps [simp del]

definition hex4 :: "nat \<Rightarrow> string" where
  "hex4 n = map (\<lambda>k. ''0123456789abcdef'' ! ((n div 16 ^ k) mod 16)) [3, 2, 1, 0]"

definition escape_char :: "char \<Rightarrow> string" where
  "escape_char c =
     (if c = CHR ''\"'' then [CHR 0x5C, CHR ''\"'']
      else if c = CHR 0x5C then [CHR 0x5C, CHR 0x5C]
      else if c = CHR 0x0A then [CHR 0x5C, CHR ''n'']
      else if c = CHR 0x0D then [CHR 0x5C, CHR ''r'']
      else if c = CHR 0x09 then [CHR 0x5C, CHR ''t'']
      else if c = CHR 0x08 then [CHR 0x5C, CHR ''b'']
      else if c = CHR 0x0C then [CHR 0x5C, CHR ''f'']
      else if of_char c < (32 :: nat) \<or> (127 :: nat) < of_char c then [CHR 0x5C, CHR ''u''] @ hex4 (of_char c)
      else [c])"

definition encode_string :: "string \<Rightarrow> string" where
  "encode_string s = [CHR ''\"''] @ concat (map escape_char s) @ [CHR ''\"'']"

fun encode_value :: "jvalue \<Rightarrow> string" where
  "encode_value JNull = ''null''"
| "encode_value (JBool b) = (if b then ''true'' else ''false'')"
| "encode_value (JInt i) = (if i < 0 then CHR ''-'' # decimal (nat (- i)) else decimal (nat i))"
| "encode_value (JStr s) = encode_string s"

fun intersperse :: "'a list \<Rightarrow> 'a list list \<Rightarrow> 'a list" where
  "intersperse sep [] = []"
| "intersperse sep [x] = x"
| "intersperse sep (x # y # ys) = x @ sep @ intersperse sep (y # ys)"

definition json_dumps :: "pydict \<Rightarrow> nat \<Rightarrow> string" where
  "json_dumps d indent =
     (if d = [] then ''{}''
      else ''{'' @ [CHR 0x0A]
        @ intersperse ('','' @ [CHR 0x0A])
            (map (\<lambda>(k, v). replicate indent CHR '' '' @ encode_string k @ '': '' @ encode_value v) d)
        @ [CHR 0x0A] @ ''}'')"

datatype token = LBrace | RBrace | Colon | Comma | TStr string | TInt int | TWord string

datatype mode = Idle | InStr string | InEsc string | InHex string "nat list" | InNum bool "nat list" | InWord string

definition digit_of :: "char \<Rightarrow> nat option" where
  "digit_of c = (let n = of_char c :: nat in if 48 \<le> n \<and> n \<le> 57 then Some (n - 48) else None)"

definition hex_of :: "char \<Rightarrow> nat option" where
  "hex_of c = (let n = of_char c :: nat in
     if 48 \<le> n \<and> n \<le> 57 then Some (n - 48)
     else if 97 \<le> n \<and> n \<le> 102 then Some (n - 87)
     else if 65 \<le> n \<and> n \<le> 70 then Some (n - 55) else None)"

definition is_space :: "char \<Rightarrow> bool" where
  "is_space c = (c = CHR '' '' \<or> c = CHR 0x0A \<or> c = CHR 0x0D \<or> c = CHR 0x09)"

definition is_lower :: "char \<Rightarrow> bool" where
  "is_lower c = (97 \<le> (of_char c :: nat) \<and> (of_char c :: nat) \<le> 122)"

definition number_of :: "bool \<Rightarrow> nat list \<Rightarrow> int" where
  "number_of neg ds = (let n = int (foldl (\<lambda>a d. 10 * a + d) 0 ds) in if neg then - n else n)"

text \<open>Closing the token being read, before a delimiter or at the end of the text.\<close>

definition flush :: "mode \<Rightarrow> token list option" where
  "flush m = (case m of
       Idle \<Rightarrow> Some []
     | InNum neg ds \<Rightarrow> (if ds = [] \<or> (hd ds = 0 \<and> tl ds \<noteq> []) then None else Some [TInt (number_of neg ds)])
     | InWord s \<Rightarrow> Some [TWord s]
     | _ \<Rightarrow> None)"

definition punct :: "char \<Rightarrow> token option" where
  "punct c = (if c = CHR ''{'' then Some LBrace else if c = CHR ''}'' then Some RBrace
     else if c = CHR '':'' then Some Colon else if c = CHR '','' then Some Comma else None)"

fun lex :: "mode \<Rightarrow> string \<Rightarrow> token list option" where
  "lex m [] = flush m"
| "lex (InStr s) (c # cs) =
     (if c = CHR ''\"'' then map_option ((#) (TStr s)) (lex Idle cs)
      else if c = CHR 0x5C then lex (InEsc s) cs
      else if of_char c < (32 :: nat) then None
      else lex (InStr (s @ [c])) cs)"
| "lex (InEsc s) (c # cs) =
     (if c = CHR ''\"'' \<or> c = CHR 0x5C \<or> c = CHR ''/'' then lex (InStr (s @ [c])) cs
      else if c = CHR ''n'' then lex (InStr (s @ [CHR 0x0A])) cs
      else if c = CHR ''r'' then lex (InStr (s @ [CHR 0x0D])) cs
      else if c = CHR ''t'' then lex (InStr (s @ [CHR 0x09])) cs
      else if c = CHR ''b'' then lex (InStr (s @ [CHR 0x08])) cs
      else if c = CHR ''f'' then lex (InStr (s @ [CHR 0x0C])) cs
      else if c = CHR ''u'' then lex (InHex s []) cs
      else None)"
| "lex (InHex s hs) (c # cs) =
     (case hex_of c of
        None \<Rightarrow> None
      | Some h \<Rightarrow>
          (if length hs < 3 then lex (InHex s (hs @ [h])) cs
           else (let n = foldl (\<lambda>a d. 16 * a + d) 0 (hs @ [h])
                 in if n < 256 then lex (InStr (s @ [char_of n])) cs else None)))"
| "lex m (c # cs) =
     (if is_space c then (case flush m of None \<Rightarrow> None | Some ts \<Rightarrow> map_option ((@) ts) (lex Idle cs))
      else case punct c of
        Some p \<Rightarrow> (case flush m of None \<Rightarrow> None | Some ts \<Rightarrow> map_option ((@) (ts @ [p])) (lex Idle cs))
      | None \<Rightarrow>
         (case m of
            Idle \<Rightarrow>
              (if c = CHR ''\"'' then lex (InStr []) cs
               else if c = CHR ''-'' then lex (InNum True []) cs
               else case digit_of c of Some d \<Rightarrow> lex (InNum False [d]) cs
                 | None \<Rightarrow> if is_lower c then lex (InWord [c]) cs else None)
          | InNum neg ds \<Rightarrow> (case digit_of c of Some d \<Rightarrow> lex (InNum neg (ds @ [d])) cs | None \<Rightarrow> None)
          | InWord s \<Rightarrow> (if is_lower c then lex (InWord (s @ [c])) cs else None)
          | _ \<Rightarrow> None))"

definition dict_set :: "string \<Rightarrow> jvalue \<Rightarrow> pydict \<Rightarrow> pydict" where
  "dict_set k v d = (if k \<in> fst ` set d then map (\<lambda>(k', v'). if k' = k then (k', v) else (k', v')) d else d @ [(k, v)])"

definition scalar :: "token \<Rightarrow> jvalue option" where
  "scalar t = (case t of
       TStr s \<Rightarrow> Some (JStr s)
     | TInt i \<Rightarrow> Some (JInt i)
     | TWord s \<Rightarrow> (if s = ''null'' then Some JNull else if s = ''true'' then Some (JBool True)
                     else if s = ''false'' then Some (JBool False) else None)
     | _ \<Rightarrow> None)"

fun members :: "pydict \<Rightarrow> token list \<Rightarrow> pydict option" where
  "members d (TStr k # Colon # t # RBrace # []) = map_option (\<lambda>v. dict_set k v d) (scalar t)"
| "members d (TStr k # Colon # t # Comma # ts) =
     (case scalar t of None \<Rightarrow> None | Some v \<Rightarrow> members (dict_set k v d) ts)"
| "members d _ = None"

definition json_loads :: "string \<Rightarrow> pydict option" where
  "json_loads s = (case lex Idle s of
       Some [LBrace, RBrace] \<Rightarrow> Some []
     | Some (LBrace # ts) \<Rightarrow> members [] ts
     | _ \<Rightarrow> None)"

subsection \<open>NumPy arrays\<close>

text \<open>
  An array is its shape and its elements in row-major order, read by flat index; only
  indices below the product of the shape are meaningful. Element types are not rounded:
  \<^verbatim>\<open>astype(np.float32)\<close> is the identity on the real values.
\<close>

record 'a ndarray =
  shape :: "nat list"
  elem :: "nat \<Rightarrow> 'a"

definition len :: "'a ndarray \<Rightarrow> nat" where
  "len a = (case shape a of [] \<Rightarrow> 0 | n # _ \<Rightarrow> n)"

definition row_size :: "'a ndarray \<Rightarrow> nat" where
  "row_size a = prod_list (tl (shape a))"

text \<open>\<^verbatim>\<open>a[:k]\<close> and \<^verbatim>\<open>a[k:]\<close> for \<open>k \<ge> 0\<close>, on the first axis; Python clamps \<open>k\<close> to the length.\<close>

definition slice_to :: "nat \<Rightarrow> 'a ndarray \<Rightarrow> 'a ndarray" where
  "slice_to k a = \<lparr>shape = min k (len a) # tl (shape a), elem = elem a\<rparr>"

definition slice_from :: "nat \<Rightarrow> 'a ndarray \<Rightarrow> 'a ndarray" where
  "slice_from k a =
     \<lparr>shape = (len a - min k (len a)) # tl (shape a),
      elem = (\<lambda>i. elem a (min k (len a) * row_size a + i))\<rparr>"

text \<open>Inputs with their labels, keyed by output name.\<close>

type_synonym dataset = "real ndarray \<times> (string \<times> real ndarray) list"

subsection \<open>Keras models\<close>

text \<open>
  A variable is a weight tensor, flattened, with Keras's per-variable \<^verbatim>\<open>trainable\<close>
  attribute (false for the moving statistics of batch normalisation). The pretrained
  backbone is a model used as one layer: its variables and its layer-level
  \<^verbatim>\<open>trainable\<close> attribute, which the script assigns.
\<close>

record variable =
  var_trainable :: bool
  var_values :: "real list"

record backbone =
  bb_input_shape :: "nat list"
  bb_output_shape :: "nat list"
  bb_variables :: "variable list"
  bb_trainable :: bool

text \<open>
  Keras's \<^verbatim>\<open>layer.trainable_weights\<close> and \<^verbatim>\<open>layer.non_trainable_weights\<close>: a layer whose
  \<^verbatim>\<open>trainable\<close> attribute is false has no trainable weight.
\<close>

definition trainable_weights :: "backbone \<Rightarrow> variable list" where
  "trainable_weights bb = (if bb_trainable bb then filter var_trainable (bb_variables bb) else [])"

definition non_trainable_weights :: "backbone \<Rightarrow> variable list" where
  "non_trainable_weights bb =
     (if bb_trainable bb then filter (\<lambda>v. \<not> var_trainable v) (bb_variables bb) else bb_variables bb)"

datatype activation = Relu | Softmax | Sigmoid

text \<open>
  A symbolic tensor of the functional API is the expression that built it; each layer
  call carries the layer's variables. Shapes are per sample (the batch axis is left out).
\<close>

datatype tensor =
    Input "nat list"
  | Preprocess_input tensor
  | Base_model backbone "bool option" tensor
  | GlobalAveragePooling2D tensor
  | Dense nat activation "string option" "variable list" tensor
  | Dropout real tensor

fun shape_of :: "tensor \<Rightarrow> nat list option" where
  "shape_of (Input s) = Some s"
| "shape_of (Preprocess_input x) = shape_of x"
| "shape_of (Base_model bb training x) =
     (if shape_of x = Some (bb_input_shape bb) then Some (bb_output_shape bb) else None)"
| "shape_of (GlobalAveragePooling2D x) =
     (case shape_of x of Some [h, w, c] \<Rightarrow> Some [c] | _ \<Rightarrow> None)"
| "shape_of (Dense units act name vs x) =
     (case shape_of x of Some (d # ds) \<Rightarrow> Some (butlast (d # ds) @ [units]) | _ \<Rightarrow> None)"
| "shape_of (Dropout rate x) = shape_of x"

text \<open>The name and the activation of the layer that produced a tensor, where it has one.\<close>

fun layer_name :: "tensor \<Rightarrow> string option" where
  "layer_name (Dense units act name vs x) = name"
| "layer_name _ = None"

fun layer_activation :: "tensor \<Rightarrow> activation option" where
  "layer_activation (Dense units act name vs x) = Some act"
| "layer_activation _ = None"

text \<open>The backbones a tensor is computed through.\<close>

fun backbones :: "tensor \<Rightarrow> backbone list" where
  "backbones (Input s) = []"
| "backbones (Preprocess_input x) = backbones x"
| "backbones (Base_model bb training x) = bb # backbones x"
| "backbones (GlobalAveragePooling2D x) = backbones x"
| "backbones (Dense units act name vs x) = backbones x"
| "backbones (Dropout rate x) = backbones x"

record compile_args =
  learning_rate :: real
  loss :: "(string \<times> string) list"
  metrics :: "(string \<times> string list) list"

record keras_model =
  inputs :: tensor
  outputs :: "tensor list"
  compiled :: "compile_args option"

definition output_names :: "keras_model \<Rightarrow> string option list" where
  "output_names m = map layer_name (outputs m)"

definition output_shapes :: "keras_model \<Rightarrow> nat list option list" where
  "output_shapes m = map shape_of (outputs m)"

definition output_activations :: "keras_model \<Rightarrow> activation option list" where
  "output_activations m = map layer_activation (outputs m)"

definition model_backbones :: "keras_model \<Rightarrow> backbone list" where
  "model_backbones m = concat (map backbones (outputs m))"

datatype callback =
    EarlyStopping string nat bool
  | ReduceLROnPlateau string real nat

record history =
  params_epochs :: nat
  params_steps :: nat
  val_loss :: "real list"
  lr :: "real list"

datatype optimize = DEFAULT | OPTIMIZE_FOR_SIZE | OPTIMIZE_FOR_LATENCY | EXPERIMENTAL_SPARSITY

datatype dtype = Float16 | Float32 | Int8

record converter =
  conv_model :: "keras_model option"
  optimizations :: "optimize list"
  supported_types :: "dtype list"

subsection \<open>The environment and the world\<close>

text \<open>
  The environment holds what the outside decides: the streams of uniform and of raw integer
  draws of NumPy's global generator, the successive readings of \<^verbatim>\<open>time.time()\<close>, the
  pretrained ImageNet variables of MobileNetV2 (absent when they cannot be fetched), the
  initial kernels of new layers, what one epoch of optimisation does to a variable, the
  validation loss of a model, and the bytes the serialisers and the converter produce.
\<close>

record env =
  uniform :: "nat \<Rightarrow> real"
  integers :: "nat \<Rightarrow> nat"
  clock :: "nat \<Rightarrow> real"
  imagenet :: "variable list option"
  glorot_uniform :: "nat \<Rightarrow> nat \<Rightarrow> real list"
  optimizer_update :: "tensor list \<Rightarrow> real \<Rightarrow> variable \<Rightarrow> variable"
  statistics_update :: "tensor list \<Rightarrow> variable \<Rightarrow> variable"
  validation_loss :: "tensor list \<Rightarrow> real"
  tflite_bytes :: "converter \<Rightarrow> string"
  h5_bytes :: "keras_model \<Rightarrow> string"
  saved_model_bytes :: "keras_model \<Rightarrow> string"

text \<open>
  The world is the mutable state outside the trainer object: the draws and clock readings
  consumed so far, the directories and files, the console, and the record, in order, of
  the calls to \<^verbatim>\<open>fit\<close>, \<^verbatim>\<open>predict\<close>, \<^verbatim>\<open>convert\<close> and \<^verbatim>\<open>time.time\<close> with their arguments.
\<close>

datatype printed =
    Text string
  | Model_summary keras_model
  | Optimized_model_size real
  | Average_inference_latency real

datatype api_call =
    Fit_call nat nat nat nat "callback list"
  | Predict_call "nat list"
  | Convert_call "optimize list" "dtype list"
  | Time_call

record world =
  draws :: nat
  ticks :: nat
  dirs :: "string set"
  files :: "string \<rightharpoonup> string"
  stdout :: "printed list"
  calls :: "api_call list"

subsection \<open>Files and paths\<close>

text \<open>Paths are relative to the working directory, which always exists.\<close>

definition dirname :: "string \<Rightarrow> string" where
  "dirname p =
     (if CHR ''/'' \<in> set p then rev (tl (dropWhile (\<lambda>c. c \<noteq> CHR ''/'') (rev p))) else [])"

text \<open>\<^verbatim>\<open>os.path.join(a, b)\<close> for a relative \<open>b\<close>.\<close>

definition os_path_join :: "string \<Rightarrow> string \<Rightarrow> string" where
  "os_path_join a b = (if a = [] then b else if last a = CHR ''/'' then a @ b else a @ ''/'' @ b)"

text \<open>The path and each of its ancestors, outermost first.\<close>

fun path_prefixes :: "string \<Rightarrow> string \<Rightarrow> string list" where
  "path_prefixes acc [] = [rev acc]"
| "path_prefixes acc (c # cs) =
     (if c = CHR ''/'' then rev acc # path_prefixes (c # acc) cs else path_prefixes (c # acc) cs)"

text \<open>
  \<^verbatim>\<open>os.makedirs(path, exist_ok=True)\<close>: creates the directory and its missing ancestors; a
  file at the path or at an ancestor makes it raise.
\<close>

definition makedirs :: "string \<Rightarrow> world \<Rightarrow> world \<times> (error + unit)" where
  "makedirs path w =
     (if path \<in> dom (files w) then (w, Inl (FileExistsError path))
      else if list_ex (\<lambda>p. p \<in> dom (files w)) (path_prefixes [] path)
      then (w, Inl (NotADirectoryError path))
      else (w\<lparr>dirs := dirs w \<union> set (path_prefixes [] path)\<rparr>, Inr ()))"

text \<open>\<^verbatim>\<open>with open(path, 'w') as f: f.write(content)\<close>, also for binary content.\<close>

definition write_file :: "string \<Rightarrow> string \<Rightarrow> world \<Rightarrow> world \<times> (error + unit)" where
  "write_file path content w =
     (if path \<in> dirs w then (w, Inl (IsADirectoryError path))
      else if dirname path = [] \<or> dirname path \<in> dirs w
      then (w\<lparr>files := (files w)(path \<mapsto> content)\<rparr>, Inr ())
      else if dirname path \<in> dom (files w) then (w, Inl (NotADirectoryError path))
      else (w, Inl (FileNotFoundError path)))"

text \<open>\<^verbatim>\<open>with open(path, 'r') as f: f.read()\<close>.\<close>

definition read_file :: "string \<Rightarrow> world \<Rightarrow> error + string" where
  "read_file path w =
     (if path \<in> dirs w then Inl (IsADirectoryError path)
      else case files w path of None \<Rightarrow> Inl (FileNotFoundError path) | Some s \<Rightarrow> Inr s)"

definition print :: "printed \<Rightarrow> world \<Rightarrow> world" where
  "print x w = w\<lparr>stdout := stdout w @ [x]\<rparr>"

definition time_time :: "env \<Rightarrow> world \<Rightarrow> world \<times> real" where
  "time_time e w = (w\<lparr>ticks := ticks w + 1, calls := calls w @ [Time_call]\<rparr>, clock e (ticks w))"

subsection \<open>NumPy's random arrays\<close>

definition np_random_rand :: "env \<Rightarrow> nat list \<Rightarrow> world \<Rightarrow> world \<times> real ndarray" where
  "np_random_rand e shp w =
     (w\<lparr>draws := draws w + prod_list shp\<rparr>,
      \<lparr>shape = shp, elem = (\<lambda>i. uniform e (draws w + i))\<rparr>)"

text \<open>\<^verbatim>\<open>np.random.randint(low, high, n)\<close>: \<open>n\<close> integers in \<open>[low, high)\<close>.\<close>

definition np_random_randint :: "env \<Rightarrow> int \<Rightarrow> int \<Rightarrow> nat \<Rightarrow> world \<Rightarrow> world \<times> int ndarray" where
  "np_random_randint e low high n w =
     (w\<lparr>draws := draws w + n\<rparr>,
      \<lparr>shape = [n], elem = (\<lambda>i. low + int (integers e (draws w + i)) mod (high - low))\<rparr>)"

text \<open>
  \<^verbatim>\<open>to_categorical(y, num_classes)\<close>: one-hot rows, set by indexing a zero matrix with the
  labels. A negative label counts from the end of the row; a label outside
  \<open>[-num_classes, num_classes)\<close> indexes out of bounds and raises.
\<close>

definition to_categorical :: "int ndarray \<Rightarrow> nat \<Rightarrow> error + real ndarray" where
  "to_categorical y num_classes =
     (if list_all (\<lambda>i. - int num_classes \<le> elem y i \<and> elem y i < int num_classes)
           [0..<prod_list (shape y)]
      then Inr \<lparr>shape = shape y @ [num_classes],
                elem = (\<lambda>i. if elem y (i div num_classes) mod int num_classes = int (i mod num_classes)
                            then 1 else 0)\<rparr>
      else Inl IndexError)"

subsection \<open>Building and compiling a model\<close>

text \<open>
  \<^verbatim>\<open>MobileNetV2(input_shape=s, include_top=False, weights='imagenet')\<close>: the network
  reduces each spatial axis by 32 and ends in 1280 channels. The ImageNet weights exist
  for three input channels, and the constructor raises when they cannot be fetched. A
  new model is trainable.
\<close>

definition MobileNetV2 :: "env \<Rightarrow> nat list \<Rightarrow> error + backbone" where
  "MobileNetV2 e input_shape =
     (case input_shape of
        [h, w, c] \<Rightarrow>
          (if c = 3 \<and> 32 \<le> h \<and> 32 \<le> w
           then (case imagenet e of
                   None \<Rightarrow> Inl DownloadError
                 | Some vs \<Rightarrow>
                     Inr \<lparr>bb_input_shape = input_shape,
                          bb_output_shape = [(h + 31) div 32, (w + 31) div 32, 1280],
                          bb_variables = vs, bb_trainable = True\<rparr>)
           else Inl ValueError)
      | _ \<Rightarrow> Inl ValueError)"

text \<open>
  Calling a layer on a tensor raises when the layer does not accept the tensor's shape. A
  new dense layer has a kernel and a zero bias, both trainable.
\<close>

definition checked :: "tensor \<Rightarrow> error + tensor" where
  "checked x = (case shape_of x of None \<Rightarrow> Inl ValueError | Some s \<Rightarrow> Inr x)"

definition dense :: "env \<Rightarrow> nat \<Rightarrow> activation \<Rightarrow> string option \<Rightarrow> tensor \<Rightarrow> error + tensor" where
  "dense e units act name x =
     (case shape_of x of
        Some (d # ds) \<Rightarrow>
          Inr (Dense units act name
                 [\<lparr>var_trainable = True, var_values = glorot_uniform e (last (d # ds)) units\<rparr>,
                  \<lparr>var_trainable = True, var_values = replicate units 0\<rparr>] x)
      | _ \<Rightarrow> Inl ValueError)"

text \<open>
  \<^verbatim>\<open>model.compile(optimizer=Adam(learning_rate=r), loss=..., metrics=...)\<close>: the keys of
  the loss dictionary must name outputs of the model.
\<close>

definition compile :: "keras_model \<Rightarrow> compile_args \<Rightarrow> error + keras_model" where
  "compile m args =
     (if list_all (\<lambda>k. Some k \<in> set (output_names m)) (map fst (loss args))
      then Inr (m\<lparr>compiled := Some args\<rparr>)
      else Inl ValueError)"

subsection \<open>The training loop\<close>

text \<open>
  One epoch changes the variables of the model. A trainable variable of a trainable layer
  takes the optimiser's update. The moving statistics of a backbone take their update only
  when the backbone is trainable and is not called with \<^verbatim>\<open>training=False\<close>. Every other
  variable is left as it is.
\<close>

definition train_variable ::
  "(variable \<Rightarrow> variable) \<Rightarrow> (variable \<Rightarrow> variable) \<Rightarrow> bool \<Rightarrow> bool option \<Rightarrow> variable \<Rightarrow> variable" where
  "train_variable opt stat layer_trainable training v =
     (if layer_trainable \<and> var_trainable v then opt v
      else if layer_trainable \<and> training \<noteq> Some False then stat v
      else v)"

fun train_tensor :: "(variable \<Rightarrow> variable) \<Rightarrow> (variable \<Rightarrow> variable) \<Rightarrow> tensor \<Rightarrow> tensor" where
  "train_tensor opt stat (Input s) = Input s"
| "train_tensor opt stat (Preprocess_input x) = Preprocess_input (train_tensor opt stat x)"
| "train_tensor opt stat (Base_model bb training x) =
     Base_model
       (bb\<lparr>bb_variables := map (train_variable opt stat (bb_trainable bb) training) (bb_variables bb)\<rparr>)
       training (train_tensor opt stat x)"
| "train_tensor opt stat (GlobalAveragePooling2D x) = GlobalAveragePooling2D (train_tensor opt stat x)"
| "train_tensor opt stat (Dense units act name vs x) =
     Dense units act name (map (train_variable opt stat True None) vs) (train_tensor opt stat x)"
| "train_tensor opt stat (Dropout rate x) = Dropout rate (train_tensor opt stat x)"

text \<open>
  The state of the loop: the model's layers with their current variables, the optimiser's
  learning rate, and the flag a callback sets to end training. Each callback keeps the best
  monitored value so far, the number of epochs since it improved, and (for early stopping
  with \<^verbatim>\<open>restore_best_weights\<close>) the variables of the best epoch.
\<close>

record training =
  tr_outputs :: "tensor list"
  tr_lr :: real
  stop_training :: bool

record monitor =
  best :: "real option"
  wait :: nat
  best_weights :: "tensor list option"

text \<open>
  \<^verbatim>\<open>on_epoch_end\<close> of tf.keras's two callbacks on the monitored validation loss.
  \<^verbatim>\<open>EarlyStopping(monitor, patience, restore_best_weights)\<close>, with its default
  \<^verbatim>\<open>min_delta=0\<close>: an improvement resets the wait; otherwise the wait grows and, once it
  reaches the patience, training stops and the best variables are put back.
  \<^verbatim>\<open>ReduceLROnPlateau(monitor, factor, patience)\<close>, with its defaults
  \<^verbatim>\<open>min_delta=1e-4\<close>, \<^verbatim>\<open>cooldown=0\<close>, \<^verbatim>\<open>min_lr=0\<close>: once the wait reaches the patience the
  learning rate is multiplied by the factor and the wait starts again.
\<close>

fun on_epoch_end :: "real \<Rightarrow> callback \<Rightarrow> monitor \<Rightarrow> training \<Rightarrow> monitor \<times> training" where
  "on_epoch_end current (EarlyStopping monitored patience restore) c t =
     (if monitored = ''val_loss''
      then (if (case best c of None \<Rightarrow> True | Some b \<Rightarrow> current < b)
            then (c\<lparr>best := Some current, wait := 0,
                     best_weights := (if restore then Some (tr_outputs t) else best_weights c)\<rparr>, t)
            else if patience \<le> wait c + 1
            then (c\<lparr>wait := wait c + 1\<rparr>,
                  t\<lparr>stop_training := True,
                     tr_outputs := (case best_weights c of
                                      Some ws \<Rightarrow> (if restore then ws else tr_outputs t)
                                    | None \<Rightarrow> tr_outputs t)\<rparr>)
            else (c\<lparr>wait := wait c + 1\<rparr>, t))
      else (c, t))"
| "on_epoch_end current (ReduceLROnPlateau monitored factor patience) c t =
     (if monitored = ''val_loss''
      then (if (case best c of None \<Rightarrow> True | Some b \<Rightarrow> current < b - 1 / 10000)
            then (c\<lparr>best := Some current, wait := 0\<rparr>, t)
            else if patience \<le> wait c + 1
            then (c\<lparr>wait := 0\<rparr>, t\<lparr>tr_lr := (if 0 < tr_lr t then max (tr_lr t * factor) 0 else tr_lr t)\<rparr>)
            else (c\<lparr>wait := wait c + 1\<rparr>, t))
      else (c, t))"

text \<open>The callbacks run in list order, each on the state the previous one left.\<close>

fun run_callbacks ::
  "real \<Rightarrow> (callback \<times> monitor) list \<Rightarrow> training \<Rightarrow> (callback \<times> monitor) list \<times> training" where
  "run_callbacks current [] t = ([], t)"
| "run_callbacks current ((cb, c) # cbs) t =
     (let (c', t') = on_epoch_end current cb c t;
          (cbs', t'') = run_callbacks current cbs t'
      in ((cb, c') # cbs', t''))"

text \<open>
  At most \<open>n\<close> further epochs: train, measure the validation loss, log it with the
  learning rate of the epoch, run the callbacks; stop when a callback asked to.
\<close>

fun fit_loop ::
  "env \<Rightarrow> nat \<Rightarrow> (callback \<times> monitor) list \<Rightarrow> training \<Rightarrow> (real \<times> real) list
   \<Rightarrow> training \<times> (real \<times> real) list" where
  "fit_loop e 0 cbs t logs = (t, logs)"
| "fit_loop e (Suc n) cbs t logs =
     (if stop_training t then (t, logs)
      else (let trained = map (train_tensor (optimizer_update e (tr_outputs t) (tr_lr t))
                                            (statistics_update e (tr_outputs t))) (tr_outputs t);
                current = validation_loss e trained;
                (cbs', t') = run_callbacks current cbs (t\<lparr>tr_outputs := trained\<rparr>)
            in fit_loop e n cbs' t' (logs @ [(current, tr_lr t)])))"

text \<open>
  \<^verbatim>\<open>model.fit(x, y, validation_data=..., epochs=..., batch_size=..., callbacks=...)\<close>. The
  model must have been compiled and the batch size be positive. The call is recorded with the numbers of training and
  validation samples, the epochs, the batch size and the callbacks. The model object is
  updated in place: the function returns the updated model with the history. Keras's own
  progress output is not modelled.
\<close>

definition fit ::
  "env \<Rightarrow> keras_model \<Rightarrow> real ndarray \<Rightarrow> (string \<times> real ndarray) list \<Rightarrow> dataset \<Rightarrow> nat \<Rightarrow> nat
   \<Rightarrow> callback list \<Rightarrow> world \<Rightarrow> world \<times> (error + keras_model \<times> history)" where
  "fit e m x y validation_data epochs batch_size callbacks w =
     (case compiled m of
        None \<Rightarrow> (w, Inl RuntimeError)
      | Some args \<Rightarrow>
          if batch_size = 0 then (w, Inl ValueError) else
          (let w' = w\<lparr>calls := calls w @ [Fit_call (len x) (len (fst validation_data)) epochs batch_size callbacks]\<rparr>;
               (t, logs) = fit_loop e epochs
                             (map (\<lambda>cb. (cb, \<lparr>best = None, wait = 0, best_weights = None\<rparr>)) callbacks)
                             \<lparr>tr_outputs = outputs m, tr_lr = learning_rate args, stop_training = False\<rparr> []
           in (w', Inr (m\<lparr>outputs := tr_outputs t, compiled := Some (args\<lparr>learning_rate := tr_lr t\<rparr>)\<rparr>,
                        \<lparr>params_epochs = epochs,
                         params_steps = (len x + batch_size - 1) div batch_size,
                         val_loss = map fst logs, lr = map snd logs\<rparr>))))"

text \<open>
  \<^verbatim>\<open>model.predict(x, verbose=0)\<close>: the call is recorded with the shape of its input. The
  script discards the prediction.
\<close>

definition predict :: "keras_model \<Rightarrow> real ndarray \<Rightarrow> world \<Rightarrow> world" where
  "predict m x w = w\<lparr>calls := calls w @ [Predict_call (shape x)]\<rparr>"

text \<open>\<^verbatim>\<open>converter.convert()\<close>: fails without a model; the call is recorded with its flags.\<close>

definition convert :: "env \<Rightarrow> converter \<Rightarrow> world \<Rightarrow> world \<times> (error + string)" where
  "convert e c w =
     (case conv_model c of
        None \<Rightarrow> (w, Inl ValueError)
      | Some m \<Rightarrow>
          (w\<lparr>calls := calls w @ [Convert_call (optimizations c) (supported_types c)]\<rparr>,
           Inr (tflite_bytes e c)))"

subsection \<open>The trainer object\<close>

record trainer =
  config :: pydict
  model :: "keras_model option"
  history :: "history option"

definition default_config_path :: string where
  "default_config_path = ''config/training_config.json''"

text \<open>\<^verbatim>\<open>MicroMentorTrainer.__init__\<close>: reads the file once and starts with no model.\<close>

definition MicroMentorTrainer :: "string \<Rightarrow> world \<Rightarrow> error + trainer" where
  "MicroMentorTrainer config_path w =
     (case read_file config_path w of
        Inl err \<Rightarrow> Inl err
      | Inr s \<Rightarrow>
          (case json_loads s of
             None \<Rightarrow> Inl JSONDecodeError
           | Some d \<Rightarrow> Inr \<lparr>config = d, model = None, history = None\<rparr>))"

subsection \<open>\<^verbatim>\<open>MicroMentorTrainer.create_model\<close>\<close>

text \<open>
  A method returns the trainer as the call left it together with its result or the
  exception it raised. \<^verbatim>\<open>create_model\<close> assigns \<^verbatim>\<open>self.model\<close> before it compiles.
\<close>

definition create_model :: "env \<Rightarrow> trainer \<Rightarrow> trainer \<times> (error + keras_model)" where
  "create_model e t =
     (case MobileNetV2 e [224, 224, 3] of
        Inl err \<Rightarrow> (t, Inl err)
      | Inr base_model0 \<Rightarrow>
          (let base_model = base_model0\<lparr>bb_trainable := False\<rparr>;
               inputs0 = Input [224, 224, 3]
           in case checked (Base_model base_model (Some False) (Preprocess_input inputs0)) of
                Inl err \<Rightarrow> (t, Inl err)
              | Inr x1 \<Rightarrow>
             (case checked (GlobalAveragePooling2D x1) of
                Inl err \<Rightarrow> (t, Inl err)
              | Inr x2 \<Rightarrow>
             (case dense e 128 Relu None x2 of
                Inl err \<Rightarrow> (t, Inl err)
              | Inr x3 \<Rightarrow>
             (case checked (Dropout (2 / 10) x3) of
                Inl err \<Rightarrow> (t, Inl err)
              | Inr x \<Rightarrow>
             (case dense e 5 Softmax (Some ''emotion'') x of
                Inl err \<Rightarrow> (t, Inl err)
              | Inr emotion_output \<Rightarrow>
             (case dense e 1 Sigmoid (Some ''fatigue'') x of
                Inl err \<Rightarrow> (t, Inl err)
              | Inr fatigue_output \<Rightarrow>
                  (let m = \<lparr>inputs = inputs0, outputs = [emotion_output, fatigue_output], compiled = None\<rparr>
                   in case compile m
                        \<lparr>learning_rate = 1 / 1000,
                         loss = [(''emotion'', ''categorical_crossentropy''),
                                 (''fatigue'', ''binary_crossentropy'')],
                         metrics = [(''emotion'', [''accuracy'']), (''fatigue'', [''accuracy''])]\<rparr> of
                        Inl err \<Rightarrow> (t\<lparr>model := Some m\<rparr>, Inl err)
                      | Inr m' \<Rightarrow> (t\<lparr>model := Some m'\<rparr>, Inr m')))))))))"

subsection \<open>\<^verbatim>\<open>MicroMentorTrainer.prepare_data\<close>\<close>

definition num_samples :: nat where
  "num_samples = 1000"

text \<open>
  \<^verbatim>\<open>int(0.8 * num_samples)\<close>: the product is taken in the reals and truncated. For 1000
  samples the double-precision product rounds to 800.0, the same value.
\<close>

definition split_idx :: nat where
  "split_idx = nat \<lfloor>(0.8 :: real) * real num_samples\<rfloor>"

definition prepare_data :: "env \<Rightarrow> world \<Rightarrow> world \<times> (error + dataset \<times> dataset)" where
  "prepare_data e w =
     (let (w1, X) = np_random_rand e [num_samples, 224, 224, 3] w;
          (w2, emotions) = np_random_randint e 0 5 num_samples w1
      in case to_categorical emotions 5 of
           Inl err \<Rightarrow> (w2, Inl err)
         | Inr y_emotion \<Rightarrow>
             (let (w3, y_fatigue) = np_random_rand e [num_samples, 1] w2;
                  X_train = slice_to split_idx X; X_val = slice_from split_idx X;
                  y_emotion_train = slice_to split_idx y_emotion;
                  y_emotion_val = slice_from split_idx y_emotion;
                  y_fatigue_train = slice_to split_idx y_fatigue;
                  y_fatigue_val = slice_from split_idx y_fatigue
              in (w3, Inr ((X_train, [(''emotion'', y_emotion_train), (''fatigue'', y_fatigue_train)]),
                           (X_val, [(''emotion'', y_emotion_val), (''fatigue'', y_fatigue_val)])))))"

subsection \<open>\<^verbatim>\<open>MicroMentorTrainer.train\<close>\<close>

definition train_callbacks :: "callback list" where
  "train_callbacks = [EarlyStopping ''val_loss'' 3 True, ReduceLROnPlateau ''val_loss'' (5 / 10) 2]"

definition train :: "env \<Rightarrow> nat \<Rightarrow> world \<Rightarrow> trainer \<Rightarrow> world \<times> trainer \<times> (error + history)" where
  "train e epochs w t =
     (case (case model t of None \<Rightarrow> create_model e t | Some m \<Rightarrow> (t, Inr m)) of
        (t1, Inl err) \<Rightarrow> (w, t1, Inl err)
      | (t1, Inr _) \<Rightarrow>
          (case prepare_data e w of
             (w1, Inl err) \<Rightarrow> (w1, t1, Inl err)
           | (w1, Inr (train_data, val_data)) \<Rightarrow>
               (case model t1 of
                  None \<Rightarrow> (w1, t1, Inl (AttributeError ''fit''))
                | Some m \<Rightarrow>
                    (case fit e m (fst train_data) (snd train_data) val_data epochs 32 train_callbacks w1 of
                       (w2, Inl err) \<Rightarrow> (w2, t1, Inl err)
                     | (w2, Inr (m', h)) \<Rightarrow> (w2, t1\<lparr>model := Some m', history := Some h\<rparr>, Inr h)))))"

subsection \<open>\<^verbatim>\<open>MicroMentorTrainer.optimize_for_edge\<close>\<close>

text \<open>\<^verbatim>\<open>self.config['output_path']\<close> as the first argument of \<^verbatim>\<open>os.path.join\<close>.\<close>

definition output_path :: "trainer \<Rightarrow> error + string" where
  "output_path t =
     (case map_of (config t) ''output_path'' of
        None \<Rightarrow> Inl (KeyError ''output_path'')
      | Some (JStr p) \<Rightarrow> Inr p
      | Some _ \<Rightarrow> Inl TypeError)"

definition optimize_for_edge :: "env \<Rightarrow> world \<Rightarrow> trainer \<Rightarrow> world \<times> trainer \<times> (error + string)" where
  "optimize_for_edge e w t =
     (let converter0 = \<lparr>conv_model = model t, optimizations = [], supported_types = []\<rparr>;
          converter1 = converter0\<lparr>optimizations := [DEFAULT]\<rparr>;
          converter2 = converter1\<lparr>supported_types := [Float16]\<rparr>
      in case convert e converter2 w of
           (w1, Inl err) \<Rightarrow> (w1, t, Inl err)
         | (w1, Inr tflite_model) \<Rightarrow>
             (case output_path t of
                Inl err \<Rightarrow> (w1, t, Inl err)
              | Inr out \<Rightarrow>
                  (let tflite_path = os_path_join out ''micromentor_edge.tflite''
                   in case write_file tflite_path tflite_model w1 of
                        (w2, Inl err) \<Rightarrow> (w2, t, Inl err)
                      | (w2, Inr _) \<Rightarrow>
                          (let model_size_mb = real (length tflite_model) / (1024 * 1024)
                           in (print (Optimized_model_size model_size_mb) w2, t, Inr tflite_path)))))"

subsection \<open>\<^verbatim>\<open>MicroMentorTrainer.save_model\<close>\<close>

text \<open>
  \<^verbatim>\<open>model.save(path)\<close> writes one HDF5 file. \<^verbatim>\<open>tf.saved_model.save(model, dir)\<close> creates
  the directory and writes the graph file in it; the variables it stores beside the graph
  are part of what the environment serialises.
\<close>

definition saved_model_save :: "env \<Rightarrow> keras_model \<Rightarrow> string \<Rightarrow> world \<Rightarrow> world \<times> (error + unit)" where
  "saved_model_save e m export_dir w =
     (case makedirs export_dir w of
        (w1, Inl err) \<Rightarrow> (w1, Inl err)
      | (w1, Inr _) \<Rightarrow> write_file (os_path_join export_dir ''saved_model.pb'') (saved_model_bytes e m) w1)"

definition save_model :: "env \<Rightarrow> world \<Rightarrow> trainer \<Rightarrow> world \<times> trainer \<times> (error + unit)" where
  "save_model e w t =
     (case output_path t of
        Inl err \<Rightarrow> (w, t, Inl err)
      | Inr out \<Rightarrow>
          (let keras_path = os_path_join out ''micromentor_model.h5''
           in case model t of
                None \<Rightarrow> (w, t, Inl (AttributeError ''save''))
              | Some m \<Rightarrow>
                  (case write_file keras_path (h5_bytes e m) w of
                     (w1, Inl err) \<Rightarrow> (w1, t, Inl err)
                   | (w1, Inr _) \<Rightarrow>
                       (let tfjs_path = os_path_join out ''tfjs''
                        in case saved_model_save e m tfjs_path w1 of
                             (w2, Inl err) \<Rightarrow> (w2, t, Inl err)
                           | (w2, Inr _) \<Rightarrow>
                               (print (Text (''TensorFlow.js model saved to '' @ tfjs_path))
                                  (print (Text (''Model saved to '' @ keras_path)) w2), t, Inr ())))))"

subsection \<open>\<^verbatim>\<open>MicroMentorTrainer.evaluate_latency\<close>\<close>

text \<open>\<^verbatim>\<open>for _ in range(n): _ = self.model.predict(test_input, verbose=0)\<close>.\<close>

fun warm_up :: "nat \<Rightarrow> keras_model \<Rightarrow> real ndarray \<Rightarrow> world \<Rightarrow> world" where
  "warm_up 0 m x w = w"
| "warm_up (Suc n) m x w = warm_up n m x (predict m x w)"

text \<open>
  The measuring loop: read the clock, predict, read the clock again, append the difference
  in milliseconds.
\<close>

fun measure_latencies ::
  "env \<Rightarrow> nat \<Rightarrow> keras_model \<Rightarrow> real ndarray \<Rightarrow> world \<Rightarrow> real list \<Rightarrow> world \<times> real list" where
  "measure_latencies e 0 m x w latencies = (w, latencies)"
| "measure_latencies e (Suc n) m x w latencies =
     (let (w1, start) = time_time e w;
          w2 = predict m x w1;
          (w3, stop) = time_time e w2
      in measure_latencies e n m x w3 (latencies @ [(stop - start) * 1000]))"

definition np_mean :: "real list \<Rightarrow> real" where
  "np_mean xs = sum_list xs / real (length xs)"

definition evaluate_latency :: "env \<Rightarrow> world \<Rightarrow> trainer \<Rightarrow> world \<times> trainer \<times> (error + real)" where
  "evaluate_latency e w t =
     (let (w1, test_input) = np_random_rand e [1, 224, 224, 3] w
      in case model t of
           None \<Rightarrow> (w1, t, Inl (AttributeError ''predict''))
         | Some m \<Rightarrow>
             (let w2 = warm_up 10 m test_input w1;
                  (w3, latencies) = measure_latencies e 100 m test_input w2 [];
                  avg_latency = np_mean latencies
              in (print (Average_inference_latency avg_latency) w3, t, Inr avg_latency)))"

subsection \<open>\<^verbatim>\<open>main\<close>\<close>

definition main_config :: pydict where
  "main_config = [(''output_path'', JStr ''models''), (''epochs'', JInt 5), (''batch_size'', JInt 32)]"

text \<open>
  The first steps of \<^verbatim>\<open>main\<close>: create the output directory, write the configuration,
  construct the trainer from the default path.
\<close>

definition main_setup :: "world \<Rightarrow> world \<times> (error + trainer)" where
  "main_setup w =
     (case makedirs ''models/tfjs'' w of
        (w1, Inl err) \<Rightarrow> (w1, Inl err)
      | (w1, Inr _) \<Rightarrow>
          (case write_file ''config/training_config.json'' (json_dumps main_config 2) w1 of
             (w2, Inl err) \<Rightarrow> (w2, Inl err)
           | (w2, Inr _) \<Rightarrow> (w2, MicroMentorTrainer default_config_path w2)))"

text \<open>\<^verbatim>\<open>config['epochs']\<close> of the dictionary literal, as the argument of \<^verbatim>\<open>train\<close>.\<close>

definition main_epochs :: "error + nat" where
  "main_epochs =
     (case map_of main_config ''epochs'' of
        None \<Rightarrow> Inl (KeyError ''epochs'')
      | Some (JInt n) \<Rightarrow> Inr (nat n)
      | Some _ \<Rightarrow> Inl TypeError)"

text \<open>The script writes \<^verbatim>\<open>"\\n"\<close> in its messages: a backslash and the letter n.\<close>

definition backslash_n :: string where
  "backslash_n = CHR 0x5C # ''n''"

definition main :: "env \<Rightarrow> world \<Rightarrow> world \<times> (error + unit)" where
  "main e w =
     (case main_setup w of
        (w1, Inl err) \<Rightarrow> (w1, Inl err)
      | (w1, Inr trainer0) \<Rightarrow>
     (case create_model e trainer0 of
        (trainer1, Inl err) \<Rightarrow> (print (Text ''Creating MicroMentor model...'') w1, Inl err)
      | (trainer1, Inr m) \<Rightarrow>
     (let w2 = print (Text (backslash_n @ ''Training model...''))
                 (print (Model_summary m)
                   (print (Text (backslash_n @ ''Model Summary:''))
                     (print (Text ''Creating MicroMentor model...'') w1)))
      in case main_epochs of
           Inl err \<Rightarrow> (w2, Inl err)
         | Inr epochs \<Rightarrow>
     (case train e epochs w2 trainer1 of
        (w3, trainer2, Inl err) \<Rightarrow> (w3, Inl err)
      | (w3, trainer2, Inr _) \<Rightarrow>
     (case optimize_for_edge e (print (Text (backslash_n @ ''Optimizing for edge deployment...'')) w3) trainer2 of
        (w4, trainer3, Inl err) \<Rightarrow> (w4, Inl err)
      | (w4, trainer3, Inr tflite_path) \<Rightarrow>
     (case save_model e (print (Text (backslash_n @ ''Saving models...'')) w4) trainer3 of
        (w5, trainer4, Inl err) \<Rightarrow> (w5, Inl err)
      | (w5, trainer4, Inr _) \<Rightarrow>
     (case evaluate_latency e (print (Text (backslash_n @ ''Evaluating latency...'')) w5) trainer4 of
        (w6, trainer5, Inl err) \<Rightarrow> (w6, Inl err)
      | (w6, trainer5, Inr _) \<Rightarrow>
          (case map_of main_config ''output_path'' of
             Some (JStr p) \<Rightarrow>
               (print (Text (''Models saved in '' @ p @ '' directory''))
                  (print (Text (backslash_n @ [CHR 0xE2, CHR 0x9C, CHR 0x85] @ '' Training complete!'')) w6),
                Inr ())
           | _ \<Rightarrow> (w6, Inl (KeyError ''output_path''))))))))))"

subsection \<open>A sample run\<close>

text \<open>
  One concrete environment, world and trainer, on which the theorems below are instantiated:
  a clock that advances by one second per reading, two pretrained variables (a kernel and a
  moving statistic), an optimiser that moves every value by the learning rate, a working
  directory that holds the \<^verbatim>\<open>config\<close> directory and nothing else.
\<close>

definition sample_env :: env where
  "sample_env =
     \<lparr>uniform = (\<lambda>n. 1 / 2), integers = (\<lambda>n. n), clock = (\<lambda>n. real n),
      imagenet = Some [\<lparr>var_trainable = True, var_values = [1, 2]\<rparr>,
                       \<lparr>var_trainable = False, var_values = [3]\<rparr>],
      glorot_uniform = (\<lambda>fan_in fan_out. replicate fan_out 0),
      optimizer_update = (\<lambda>xs rate v. v\<lparr>var_values := map (\<lambda>x. x - rate) (var_values v)\<rparr>),
      statistics_update = (\<lambda>xs v. v\<lparr>var_values := map (\<lambda>x. x + 1) (var_values v)\<rparr>),
      validation_loss = (\<lambda>xs. 1),
      tflite_bytes = (\<lambda>c. ''TFL3''), h5_bytes = (\<lambda>m. ''HDF5 model''),
      saved_model_bytes = (\<lambda>m. ''saved model'')\<rparr>"

definition sample_world :: world where
  "sample_world =
     \<lparr>draws = 0, ticks = 0, dirs = {''config''}, files = Map.empty, stdout = [], calls = []\<rparr>"

definition sample_trainer :: trainer where
  "sample_trainer = \<lparr>config = main_config, model = None, history = None\<rparr>"

section \<open>Properties\<close>

subsection \<open>The synthetic data\<close>

lemma split_idx_eq: "split_idx = 800"
  by (simp add: split_idx_def num_samples_def)

lemma randint_categorical:
  "0 < k \<Longrightarrow> to_categorical (snd (np_random_randint e 0 (int k) n w)) k =
     Inr \<lparr>shape = [n, k],
          elem = (\<lambda>i. if int (integers e (draws w + i div k)) mod int k = int (i mod k) then 1 else 0)\<rparr>"
  by (simp add: to_categorical_def np_random_randint_def list_all_iff order_trans [of _ 0])

lemma len_slice_to: "len (slice_to k a) = min k (len a)"
  by (simp add: slice_to_def len_def)

lemma len_slice_from: "len (slice_from k a) = len a - k"
  by (simp add: slice_from_def len_def)

lemma len_array: "len \<lparr>shape = n # s, elem = f\<rparr> = n"
  by (simp add: len_def)

lemma len_slices: "len (slice_to k a) + len (slice_from k a) = len a"
  by (simp add: len_slice_to len_slice_from)

lemma prepare_data_result:
  "\<exists>w' X y_emotion y_fatigue.
     prepare_data e w =
       (w', Inr ((slice_to split_idx X,
                    [(''emotion'', slice_to split_idx y_emotion), (''fatigue'', slice_to split_idx y_fatigue)]),
                 (slice_from split_idx X,
                    [(''emotion'', slice_from split_idx y_emotion), (''fatigue'', slice_from split_idx y_fatigue)])))
     \<and> shape X = [num_samples, 224, 224, 3] \<and> shape y_emotion = [num_samples, 5]
     \<and> shape y_fatigue = [num_samples, 1]
     \<and> w' = w\<lparr>draws := draws w + 150530000\<rparr>"
proof -
  have cat: "to_categorical (snd (np_random_randint e 0 5 num_samples w1)) 5 =
     Inr \<lparr>shape = [num_samples, 5],
          elem = (\<lambda>i. if int (integers e (draws w1 + i div 5)) mod 5 = int (i mod 5) then 1 else 0)\<rparr>" for w1
    using randint_categorical [of 5 e num_samples w1] by simp
  show ?thesis
    unfolding prepare_data_def
    apply (simp only: Let_def split_def cat [unfolded np_random_randint_def snd_conv] np_random_randint_def np_random_rand_def fst_conv snd_conv sum.case)
    apply (intro exI conjI)
    apply (rule refl)
    apply (simp_all add: num_samples_def)
    done
qed

text \<open>
  Claim C2. For every environment and world, \<^verbatim>\<open>prepare_data\<close> succeeds and returns index
  slices of the generated inputs, emotion labels and fatigue labels at \<open>split_idx = 800\<close>:
  the first 800 rows for training and the remaining 200 for validation, so that for each
  of the three arrays the two parts add up to the 1000 samples generated, four fifths of
  them in the training part.
\<close>

theorem prepare_data_split:
  "\<exists>w' X y_emotion y_fatigue.
     prepare_data e w =
       (w', Inr ((slice_to split_idx X,
                    [(''emotion'', slice_to split_idx y_emotion), (''fatigue'', slice_to split_idx y_fatigue)]),
                 (slice_from split_idx X,
                    [(''emotion'', slice_from split_idx y_emotion), (''fatigue'', slice_from split_idx y_fatigue)])))
     \<and> split_idx = 800
     \<and> shape X = [num_samples, 224, 224, 3] \<and> shape y_emotion = [num_samples, 5]
     \<and> shape y_fatigue = [num_samples, 1]
     \<and> len (slice_to split_idx X) = 800 \<and> len (slice_from split_idx X) = 200
     \<and> len (slice_to split_idx y_emotion) = 800 \<and> len (slice_from split_idx y_emotion) = 200
     \<and> len (slice_to split_idx y_fatigue) = 800 \<and> len (slice_from split_idx y_fatigue) = 200
     \<and> len (slice_to split_idx X) + len (slice_from split_idx X) = num_samples
     \<and> len (slice_to split_idx y_emotion) + len (slice_from split_idx y_emotion) = num_samples
     \<and> len (slice_to split_idx y_fatigue) + len (slice_from split_idx y_fatigue) = num_samples
     \<and> 5 * len (slice_to split_idx X) = 4 * num_samples"
proof -
  have cat: "to_categorical (snd (np_random_randint e 0 5 num_samples w1)) 5 =
     Inr \<lparr>shape = [num_samples, 5],
          elem = (\<lambda>i. if int (integers e (draws w1 + i div 5)) mod 5 = int (i mod 5) then 1 else 0)\<rparr>" for w1
    using randint_categorical [of 5 e num_samples w1] by simp
  show ?thesis
    unfolding prepare_data_def
    apply (simp only: Let_def split_def cat [unfolded np_random_randint_def snd_conv] np_random_randint_def np_random_rand_def fst_conv snd_conv sum.case)
    apply (intro exI conjI)
    apply (rule refl)
    apply (simp_all add: len_slice_to len_slice_from len_array split_idx_eq num_samples_def)
    done
qed

subsection \<open>Model assembly\<close>

lemma create_model_Some:
  assumes "imagenet e = Some vs"
  shows "\<exists>x emo fat args.
     create_model e t =
       (t\<lparr>model := Some \<lparr>inputs = Input [224, 224, 3],
                          outputs = [Dense 5 Softmax (Some ''emotion'') emo x,
                                     Dense 1 Sigmoid (Some ''fatigue'') fat x],
                          compiled = Some args\<rparr>\<rparr>,
        Inr \<lparr>inputs = Input [224, 224, 3],
             outputs = [Dense 5 Softmax (Some ''emotion'') emo x,
                        Dense 1 Sigmoid (Some ''fatigue'') fat x],
             compiled = Some args\<rparr>)
     \<and> shape_of x = Some [128]
     \<and> backbones x = [\<lparr>bb_input_shape = [224, 224, 3], bb_output_shape = [7, 7, 1280],
                        bb_variables = vs, bb_trainable = False\<rparr>]
     \<and> learning_rate args = 1 / 1000"
  using assms
  by (simp add: create_model_def MobileNetV2_def checked_def dense_def compile_def output_names_def Let_def)

lemma create_model_cases:
  "(\<exists>err t'. create_model e t = (t', Inl err)) \<or>
   (\<exists>m args. create_model e t = (t\<lparr>model := Some m\<rparr>, Inr m) \<and> compiled m = Some args)"
  by (auto simp: create_model_def compile_def Let_def split: sum.splits if_splits)

text \<open>
  Claim C1. When the pretrained weights are available, \<^verbatim>\<open>create_model\<close> stores and returns
  a model with exactly two outputs: the first is a dense layer of 5 units with softmax
  activation named \<^verbatim>\<open>emotion\<close>, of per-sample shape \<open>(5,)\<close>; the second is a dense layer of
  one unit with sigmoid activation named \<^verbatim>\<open>fatigue\<close>, of per-sample shape \<open>(1,)\<close>.
\<close>

theorem create_model_outputs:
  assumes "imagenet e = Some vs"
  shows "\<exists>m x kernel5 kernel1.
     create_model e t = (t\<lparr>model := Some m\<rparr>, Inr m)
     \<and> outputs m = [Dense 5 Softmax (Some ''emotion'') kernel5 x, Dense 1 Sigmoid (Some ''fatigue'') kernel1 x]
     \<and> length (outputs m) = 2
     \<and> output_names m = [Some ''emotion'', Some ''fatigue'']
     \<and> output_shapes m = [Some [5], Some [1]]
     \<and> output_activations m = [Some Softmax, Some Sigmoid]"
proof -
  obtain x emo fat args where cm: "create_model e t =
       (t\<lparr>model := Some \<lparr>inputs = Input [224, 224, 3],
                          outputs = [Dense 5 Softmax (Some ''emotion'') emo x,
                                     Dense 1 Sigmoid (Some ''fatigue'') fat x],
                          compiled = Some args\<rparr>\<rparr>,
        Inr \<lparr>inputs = Input [224, 224, 3],
             outputs = [Dense 5 Softmax (Some ''emotion'') emo x,
                        Dense 1 Sigmoid (Some ''fatigue'') fat x],
             compiled = Some args\<rparr>)"
    and sh: "shape_of x = Some [128]"
    using create_model_Some [OF assms, of t] by blast
  show ?thesis
    apply (rule exI [of _ "\<lparr>inputs = Input [224, 224, 3],
             outputs = [Dense 5 Softmax (Some ''emotion'') emo x,
                        Dense 1 Sigmoid (Some ''fatigue'') fat x],
             compiled = Some args\<rparr>"])
    apply (rule exI [of _ x], rule exI [of _ emo], rule exI [of _ fat])
    apply (simp add: cm sh output_names_def output_shapes_def output_activations_def)
    done
qed

theorem create_model_outputs_witness:
  "imagenet sample_env = Some [\<lparr>var_trainable = True, var_values = [1, 2]\<rparr>,
                               \<lparr>var_trainable = False, var_values = [3]\<rparr>]
   \<and> (\<exists>m x kernel5 kernel1.
     create_model sample_env sample_trainer = (sample_trainer\<lparr>model := Some m\<rparr>, Inr m)
     \<and> outputs m = [Dense 5 Softmax (Some ''emotion'') kernel5 x, Dense 1 Sigmoid (Some ''fatigue'') kernel1 x]
     \<and> length (outputs m) = 2
     \<and> output_names m = [Some ''emotion'', Some ''fatigue'']
     \<and> output_shapes m = [Some [5], Some [1]]
     \<and> output_activations m = [Some Softmax, Some Sigmoid])"
proof -
  have h: "imagenet sample_env = Some [\<lparr>var_trainable = True, var_values = [1, 2]\<rparr>,
                               \<lparr>var_trainable = False, var_values = [3]\<rparr>]"
    by (simp add: sample_env_def)
  show ?thesis using h create_model_outputs [OF h, of sample_trainer] by blast
qed

subsection \<open>Training\<close>

text \<open>What the training loop leaves of frozen backbones.\<close>

lemma train_tensor_frozen:
  "list_all (\<lambda>bb. \<not> bb_trainable bb) (backbones x) \<Longrightarrow> backbones (train_tensor opt stat x) = backbones x"
  by (induction x) (simp_all add: train_variable_def map_idI)

lemma train_tensors_frozen:
  "list_all (\<lambda>bb. \<not> bb_trainable bb) (concat (map backbones xs)) \<Longrightarrow>
   concat (map backbones (map (train_tensor opt stat) xs)) = concat (map backbones xs)"
  by (induction xs) (simp_all add: train_tensor_frozen)

lemma on_epoch_end_backbones:
  assumes "on_epoch_end current cb c t = (c', t')"
    and "concat (map backbones (tr_outputs t)) = B"
    and "\<And>ws. best_weights c = Some ws \<Longrightarrow> concat (map backbones ws) = B"
  shows "concat (map backbones (tr_outputs t')) = B
     \<and> (\<forall>ws. best_weights c' = Some ws \<longrightarrow> concat (map backbones ws) = B)"
  using assms by (cases cb) (auto split: if_splits option.splits)

lemma run_callbacks_backbones:
  assumes "run_callbacks current cbs t = (cbs', t')"
    and "concat (map backbones (tr_outputs t)) = B"
    and "\<forall>(cb, c) \<in> set cbs. \<forall>ws. best_weights c = Some ws \<longrightarrow> concat (map backbones ws) = B"
  shows "concat (map backbones (tr_outputs t')) = B
     \<and> (\<forall>(cb, c) \<in> set cbs'. \<forall>ws. best_weights c = Some ws \<longrightarrow> concat (map backbones ws) = B)"
  using assms
proof (induction cbs arbitrary: t cbs' t')
  case Nil
  then show ?case by simp
next
  case (Cons a cbs)
  obtain cb c where a: "a = (cb, c)" by (cases a)
  obtain c1 t1 where s1: "on_epoch_end current cb c t = (c1, t1)" by (cases "on_epoch_end current cb c t")
  obtain cbs2 t2 where s2: "run_callbacks current cbs t1 = (cbs2, t2)" by (cases "run_callbacks current cbs t1")
  from Cons.prems(1) a s1 s2 have res: "cbs' = (cb, c1) # cbs2" "t' = t2" by simp_all
  have h1: "concat (map backbones (tr_outputs t1)) = B
     \<and> (\<forall>ws. best_weights c1 = Some ws \<longrightarrow> concat (map backbones ws) = B)"
    using on_epoch_end_backbones [OF s1 Cons.prems(2)] Cons.prems(3) a by auto
  have h2: "concat (map backbones (tr_outputs t2)) = B
     \<and> (\<forall>(cb, c) \<in> set cbs2. \<forall>ws. best_weights c = Some ws \<longrightarrow> concat (map backbones ws) = B)"
    using Cons.IH [OF s2] h1 Cons.prems(3) by auto
  show ?case using res h1 h2 by auto
qed

lemma fit_loop_backbones:
  assumes "fit_loop e n cbs t logs = (t', logs')"
    and "concat (map backbones (tr_outputs t)) = B"
    and "list_all (\<lambda>bb. \<not> bb_trainable bb) B"
    and "\<forall>(cb, c) \<in> set cbs. \<forall>ws. best_weights c = Some ws \<longrightarrow> concat (map backbones ws) = B"
  shows "concat (map backbones (tr_outputs t')) = B"
  using assms
proof (induction n arbitrary: cbs t logs)
  case 0
  then show ?case by simp
next
  case (Suc n)
  show ?case
  proof (cases "stop_training t")
    case True
    with Suc.prems show ?thesis by simp
  next
    case False
    define trained where "trained = map (train_tensor (optimizer_update e (tr_outputs t) (tr_lr t))
                                      (statistics_update e (tr_outputs t))) (tr_outputs t)"
    obtain cbs1 t1 where rc: "run_callbacks (validation_loss e trained) cbs (t\<lparr>tr_outputs := trained\<rparr>) = (cbs1, t1)"
      by (cases "run_callbacks (validation_loss e trained) cbs (t\<lparr>tr_outputs := trained\<rparr>)")
    have tb: "concat (map backbones trained) = B"
      unfolding trained_def using train_tensors_frozen Suc.prems(2,3) by metis
    have inv: "concat (map backbones (tr_outputs t1)) = B
       \<and> (\<forall>(cb, c) \<in> set cbs1. \<forall>ws. best_weights c = Some ws \<longrightarrow> concat (map backbones ws) = B)"
      using run_callbacks_backbones [OF rc] tb Suc.prems(4) by simp
    have step: "fit_loop e n cbs1 t1 (logs @ [(validation_loss e trained, tr_lr t)]) = (t', logs')"
      using Suc.prems(1) False rc by (simp add: Let_def trained_def [symmetric])
    show ?thesis using Suc.IH [OF step _ Suc.prems(3)] inv by blast
  qed
qed

lemma fit_compiled:
  assumes "compiled m = Some args" and "0 < bs"
  shows "\<exists>m' h. fit e m x y v epochs bs cbs w =
            (w\<lparr>calls := calls w @ [Fit_call (len x) (len (fst v)) epochs bs cbs]\<rparr>, Inr (m', h))
     \<and> compiled m' \<noteq> None \<and> inputs m' = inputs m
     \<and> params_epochs h = epochs \<and> params_steps h = (len x + bs - 1) div bs
     \<and> (list_all (\<lambda>bb. \<not> bb_trainable bb) (model_backbones m) \<longrightarrow> model_backbones m' = model_backbones m)"
proof -
  obtain t logs where fl: "fit_loop e epochs
       (map (\<lambda>cb. (cb, \<lparr>best = None, wait = 0, best_weights = None\<rparr>)) cbs)
       \<lparr>tr_outputs = outputs m, tr_lr = learning_rate args, stop_training = False\<rparr> [] = (t, logs)"
    by (cases "fit_loop e epochs
       (map (\<lambda>cb. (cb, \<lparr>best = None, wait = 0, best_weights = None\<rparr>)) cbs)
       \<lparr>tr_outputs = outputs m, tr_lr = learning_rate args, stop_training = False\<rparr> []")
  have bb: "concat (map backbones (tr_outputs t)) = model_backbones m"
    if "list_all (\<lambda>bb. \<not> bb_trainable bb) (model_backbones m)"
    using fit_loop_backbones [OF fl _ that] by (auto simp: model_backbones_def)
  show ?thesis
    using assms fl bb by (simp add: fit_def Let_def model_backbones_def)
qed

lemma train_with_model:
  assumes "model t = Some m" and "compiled m = Some args"
  shows "\<exists>m' h. train e epochs w t =
            (w\<lparr>draws := draws w + 150530000,
               calls := calls w @ [Fit_call 800 200 epochs 32 train_callbacks]\<rparr>,
             t\<lparr>model := Some m', history := Some h\<rparr>, Inr h)
     \<and> compiled m' \<noteq> None \<and> inputs m' = inputs m
     \<and> params_epochs h = epochs \<and> params_steps h = 25
     \<and> (list_all (\<lambda>bb. \<not> bb_trainable bb) (model_backbones m) \<longrightarrow> model_backbones m' = model_backbones m)"
proof -
  obtain w1 X ye yf where pd: "prepare_data e w =
       (w1, Inr ((slice_to split_idx X,
                    [(''emotion'', slice_to split_idx ye), (''fatigue'', slice_to split_idx yf)]),
                 (slice_from split_idx X,
                    [(''emotion'', slice_from split_idx ye), (''fatigue'', slice_from split_idx yf)])))"
    and sh: "shape X = [num_samples, 224, 224, 3]" and cw: "w1 = w\<lparr>draws := draws w + 150530000\<rparr>"
    using prepare_data_result [of e w] by blast
  have lenX: "len X = 1000"
    using sh by (simp add: len_def num_samples_def)
  have l1: "len (slice_to split_idx X) = 800" and l2: "len (slice_from split_idx X) = 200"
    by (simp_all add: len_slice_to len_slice_from lenX split_idx_eq)
  let ?x = "slice_to split_idx X"
  let ?y = "[(''emotion'', slice_to split_idx ye), (''fatigue'', slice_to split_idx yf)]"
  let ?v = "(slice_from split_idx X, [(''emotion'', slice_from split_idx ye), (''fatigue'', slice_from split_idx yf)])"
  have "\<exists>m' h. fit e m ?x ?y ?v epochs 32 train_callbacks w1 =
            (w1\<lparr>calls := calls w1 @ [Fit_call 800 200 epochs 32 train_callbacks]\<rparr>, Inr (m', h))
     \<and> compiled m' \<noteq> None \<and> inputs m' = inputs m
     \<and> params_epochs h = epochs \<and> params_steps h = 25
     \<and> (list_all (\<lambda>bb. \<not> bb_trainable bb) (model_backbones m) \<longrightarrow> model_backbones m' = model_backbones m)"
    using fit_compiled [OF assms(2), of 32 e ?x ?y ?v epochs train_callbacks w1]
    by (simp add: l1 l2)
  then obtain m' h where f: "fit e m ?x ?y ?v epochs 32 train_callbacks w1 =
          (w1\<lparr>calls := calls w1 @ [Fit_call 800 200 epochs 32 train_callbacks]\<rparr>, Inr (m', h))"
    and rest: "compiled m' \<noteq> None" "inputs m' = inputs m" "params_epochs h = epochs"
      "params_steps h = 25"
      "list_all (\<lambda>bb. \<not> bb_trainable bb) (model_backbones m) \<longrightarrow> model_backbones m' = model_backbones m"
    by blast
  have "train e epochs w t =
          (w\<lparr>draws := draws w + 150530000,
             calls := calls w @ [Fit_call 800 200 epochs 32 train_callbacks]\<rparr>,
           t\<lparr>model := Some m', history := Some h\<rparr>, Inr h)"
    using assms(1) pd f cw by (simp add: train_def)
  then show ?thesis using rest by blast
qed

lemma train_without_model:
  assumes "model t = None" and "imagenet e = Some vs"
  shows "\<exists>m m' h. create_model e t = (t\<lparr>model := Some m\<rparr>, Inr m)
     \<and> train e epochs w t =
            (w\<lparr>draws := draws w + 150530000,
               calls := calls w @ [Fit_call 800 200 epochs 32 train_callbacks]\<rparr>,
             t\<lparr>model := Some m', history := Some h\<rparr>, Inr h)
     \<and> compiled m' \<noteq> None \<and> params_epochs h = epochs
     \<and> model_backbones m' = model_backbones m"
proof -
  obtain x emo fat args where cm: "create_model e t =
       (t\<lparr>model := Some \<lparr>inputs = Input [224, 224, 3],
                          outputs = [Dense 5 Softmax (Some ''emotion'') emo x,
                                     Dense 1 Sigmoid (Some ''fatigue'') fat x],
                          compiled = Some args\<rparr>\<rparr>,
        Inr \<lparr>inputs = Input [224, 224, 3],
             outputs = [Dense 5 Softmax (Some ''emotion'') emo x,
                        Dense 1 Sigmoid (Some ''fatigue'') fat x],
             compiled = Some args\<rparr>)"
    and bb: "backbones x = [\<lparr>bb_input_shape = [224, 224, 3], bb_output_shape = [7, 7, 1280],
                        bb_variables = vs, bb_trainable = False\<rparr>]"
    using create_model_Some [OF assms(2), of t] by blast
  define m where "m = \<lparr>inputs = Input [224, 224, 3],
                          outputs = [Dense 5 Softmax (Some ''emotion'') emo x,
                                     Dense 1 Sigmoid (Some ''fatigue'') fat x],
                          compiled = Some args\<rparr>"
  have frozen: "list_all (\<lambda>bb. \<not> bb_trainable bb) (model_backbones m)"
    by (simp add: m_def model_backbones_def bb)
  have tr: "train e epochs w t = train e epochs w (t\<lparr>model := Some m\<rparr>)"
    using assms(1) cm by (simp add: train_def m_def)
  obtain m' h where "train e epochs w (t\<lparr>model := Some m\<rparr>) =
            (w\<lparr>draws := draws w + 150530000,
               calls := calls w @ [Fit_call 800 200 epochs 32 train_callbacks]\<rparr>,
             t\<lparr>model := Some m', history := Some h\<rparr>, Inr h)"
     "compiled m' \<noteq> None" "params_epochs h = epochs" "model_backbones m' = model_backbones m"
    using train_with_model [of "t\<lparr>model := Some m\<rparr>" m args e epochs w] frozen
    by (auto simp: m_def)
  then show ?thesis using cm tr by (auto simp: m_def)
qed

lemma train_calls:
  "calls (fst (train e epochs w t)) =
     (if isl (snd (snd (train e epochs w t))) then calls w
      else calls w @ [Fit_call 800 200 epochs 32 train_callbacks])"
proof (cases "model t")
  case None
  from create_model_cases [of e t] show ?thesis
  proof
    assume "\<exists>err t'. create_model e t = (t', Inl err)"
    then show ?thesis using None by (auto simp: train_def)
  next
    assume "\<exists>m args. create_model e t = (t\<lparr>model := Some m\<rparr>, Inr m) \<and> compiled m = Some args"
    then obtain m args where cm: "create_model e t = (t\<lparr>model := Some m\<rparr>, Inr m)" and c: "compiled m = Some args"
      by blast
    have tr: "train e epochs w t = train e epochs w (t\<lparr>model := Some m\<rparr>)"
      using None cm by (simp add: train_def)
    show ?thesis
      using train_with_model [of "t\<lparr>model := Some m\<rparr>" m args e epochs w] c tr by auto
  qed
next
  case (Some m)
  show ?thesis
  proof (cases "compiled m")
    case None
    obtain w1 d where pd: "prepare_data e w = (w1, Inr d)" and cw: "w1 = w\<lparr>draws := draws w + 150530000\<rparr>"
      using prepare_data_result [of e w] by blast
    show ?thesis using Some None pd cw by (simp add: train_def fit_def split: prod.splits)
  next
    case (Some args)
    show ?thesis
      using train_with_model [OF \<open>model t = Some m\<close> Some, of e epochs w] by auto
  qed
qed

lemma train_through_fit:
  assumes "model t = Some m" and "compiled m = Some args"
  shows "\<exists>td vd m' h.
       prepare_data e w = (w\<lparr>draws := draws w + 150530000\<rparr>, Inr (td, vd))
     \<and> fit e m (fst td) (snd td) vd epochs 32 train_callbacks (w\<lparr>draws := draws w + 150530000\<rparr>) =
          (w\<lparr>draws := draws w + 150530000,
             calls := calls w @ [Fit_call 800 200 epochs 32 train_callbacks]\<rparr>, Inr (m', h))
     \<and> train e epochs w t =
          (w\<lparr>draws := draws w + 150530000,
             calls := calls w @ [Fit_call 800 200 epochs 32 train_callbacks]\<rparr>,
           t\<lparr>model := Some m', history := Some h\<rparr>, Inr h)
     \<and> compiled m' \<noteq> None \<and> inputs m' = inputs m \<and> params_epochs h = epochs
     \<and> (list_all (\<lambda>bb. \<not> bb_trainable bb) (model_backbones m) \<longrightarrow> model_backbones m' = model_backbones m)"
proof -
  obtain w1 X ye yf where pd: "prepare_data e w =
       (w1, Inr ((slice_to split_idx X,
                    [(''emotion'', slice_to split_idx ye), (''fatigue'', slice_to split_idx yf)]),
                 (slice_from split_idx X,
                    [(''emotion'', slice_from split_idx ye), (''fatigue'', slice_from split_idx yf)])))"
    and sh: "shape X = [num_samples, 224, 224, 3]" and cw: "w1 = w\<lparr>draws := draws w + 150530000\<rparr>"
    using prepare_data_result [of e w] by blast
  have lenX: "len X = 1000"
    using sh by (simp add: len_def num_samples_def)
  have l1: "len (slice_to split_idx X) = 800" and l2: "len (slice_from split_idx X) = 200"
    by (simp_all add: len_slice_to len_slice_from lenX split_idx_eq)
  let ?x = "slice_to split_idx X"
  let ?y = "[(''emotion'', slice_to split_idx ye), (''fatigue'', slice_to split_idx yf)]"
  let ?v = "(slice_from split_idx X, [(''emotion'', slice_from split_idx ye), (''fatigue'', slice_from split_idx yf)])"
  have "\<exists>m' h. fit e m ?x ?y ?v epochs 32 train_callbacks w1 =
            (w1\<lparr>calls := calls w1 @ [Fit_call 800 200 epochs 32 train_callbacks]\<rparr>, Inr (m', h))
     \<and> compiled m' \<noteq> None \<and> inputs m' = inputs m
     \<and> params_epochs h = epochs \<and> params_steps h = 25
     \<and> (list_all (\<lambda>bb. \<not> bb_trainable bb) (model_backbones m) \<longrightarrow> model_backbones m' = model_backbones m)"
    using fit_compiled [OF assms(2), of 32 e ?x ?y ?v epochs train_callbacks w1]
    by (simp add: l1 l2)
  then obtain m' h where f: "fit e m ?x ?y ?v epochs 32 train_callbacks w1 =
          (w1\<lparr>calls := calls w1 @ [Fit_call 800 200 epochs 32 train_callbacks]\<rparr>, Inr (m', h))"
    and rest: "compiled m' \<noteq> None" "inputs m' = inputs m" "params_epochs h = epochs"
      "list_all (\<lambda>bb. \<not> bb_trainable bb) (model_backbones m) \<longrightarrow> model_backbones m' = model_backbones m"
    by blast
  have tr: "train e epochs w t =
          (w\<lparr>draws := draws w + 150530000,
             calls := calls w @ [Fit_call 800 200 epochs 32 train_callbacks]\<rparr>,
           t\<lparr>model := Some m', history := Some h\<rparr>, Inr h)"
    using assms(1) pd f cw by (simp add: train_def)
  have f': "fit e m (fst (?x, ?y)) (snd (?x, ?y)) ?v epochs 32 train_callbacks (w\<lparr>draws := draws w + 150530000\<rparr>) =
          (w\<lparr>draws := draws w + 150530000,
             calls := calls w @ [Fit_call 800 200 epochs 32 train_callbacks]\<rparr>, Inr (m', h))"
    using f cw by simp
  have pd': "prepare_data e w = (w\<lparr>draws := draws w + 150530000\<rparr>, Inr ((?x, ?y), ?v))"
    using pd cw by simp
  show ?thesis
    by (rule exI [of _ "(?x, ?y)"], rule exI [of _ ?v], rule exI [of _ m'], rule exI [of _ h])
       (intro conjI pd' f' tr rest)
qed

lemma create_model_unavailable:
  "imagenet e = None \<Longrightarrow> create_model e t = (t, Inl DownloadError)"
  by (simp add: create_model_def MobileNetV2_def)

lemma train_unavailable:
  "model t = None \<Longrightarrow> imagenet e = None \<Longrightarrow> train e epochs w t = (w, t, Inl DownloadError)"
  by (simp add: train_def create_model_unavailable)

lemma train_fails_iff:
  "isl (snd (snd (train e epochs w t))) =
     (case model t of None \<Rightarrow> imagenet e = None | Some m \<Rightarrow> compiled m = None)"
proof (cases "model t")
  case None
  show ?thesis
  proof (cases "imagenet e")
    case n: None
    show ?thesis using None n by (simp add: train_unavailable)
  next
    case (Some vs)
    show ?thesis using train_without_model [OF None Some, of epochs w] None Some by auto
  qed
next
  case (Some m)
  show ?thesis
  proof (cases "compiled m")
    case None
    obtain w1 d where pd: "prepare_data e w = (w1, Inr d)"
      using prepare_data_result [of e w] by blast
    show ?thesis using Some None pd by (simp add: train_def fit_def split: prod.splits)
  next
    case c: (Some args)
    show ?thesis using train_with_model [OF Some c, of e epochs w] Some c by auto
  qed
qed

text \<open>
  The two callbacks at work. In the sample environment the validation loss never improves
  after the first epoch: the learning rate is halved at the end of the third epoch, two
  epochs without improvement, and training stops at the end of the fourth, three epochs
  without improvement, although five were asked for.
\<close>

lemma fit_history:
  assumes "compiled m = Some args" and "0 < bs"
    and "fit e m x y v epochs bs cbs w = (w', Inr (m', h))"
  shows "val_loss h = map fst (snd (fit_loop e epochs
            (map (\<lambda>cb. (cb, \<lparr>best = None, wait = 0, best_weights = None\<rparr>)) cbs)
            \<lparr>tr_outputs = outputs m, tr_lr = learning_rate args, stop_training = False\<rparr> []))"
    and "lr h = map snd (snd (fit_loop e epochs
            (map (\<lambda>cb. (cb, \<lparr>best = None, wait = 0, best_weights = None\<rparr>)) cbs)
            \<lparr>tr_outputs = outputs m, tr_lr = learning_rate args, stop_training = False\<rparr> []))"
  using assms by (auto simp: fit_def Let_def split_def)

lemma sample_plateau:
  "snd (fit_loop sample_env 5
          (map (\<lambda>cb. (cb, \<lparr>best = None, wait = 0, best_weights = None\<rparr>)) train_callbacks)
          \<lparr>tr_outputs = outs, tr_lr = 1 / 1000, stop_training = False\<rparr> []) =
     [(1, 1 / 1000), (1, 1 / 1000), (1, 1 / 1000), (1, 1 / 2000)]"
  by (simp add: eval_nat_numeral train_callbacks_def sample_env_def Let_def)

lemma sample_train_history:
  "\<exists>w' t' h. train sample_env 5 sample_world sample_trainer = (w', t', Inr h)
     \<and> val_loss h = [1, 1, 1, 1] \<and> lr h = [1 / 1000, 1 / 1000, 1 / 1000, 1 / 2000]"
proof -
  have i: "imagenet sample_env = Some [\<lparr>var_trainable = True, var_values = [1, 2]\<rparr>,
                               \<lparr>var_trainable = False, var_values = [3]\<rparr>]"
    by (simp add: sample_env_def)
  obtain x emo fat args where cm: "create_model sample_env sample_trainer =
       (sample_trainer\<lparr>model := Some \<lparr>inputs = Input [224, 224, 3],
                          outputs = [Dense 5 Softmax (Some ''emotion'') emo x,
                                     Dense 1 Sigmoid (Some ''fatigue'') fat x],
                          compiled = Some args\<rparr>\<rparr>,
        Inr \<lparr>inputs = Input [224, 224, 3],
             outputs = [Dense 5 Softmax (Some ''emotion'') emo x,
                        Dense 1 Sigmoid (Some ''fatigue'') fat x],
             compiled = Some args\<rparr>)"
    and rate: "learning_rate args = 1 / 1000"
    using create_model_Some [OF i, of sample_trainer] by blast
  define m where "m = \<lparr>inputs = Input [224, 224, 3],
                          outputs = [Dense 5 Softmax (Some ''emotion'') emo x,
                                     Dense 1 Sigmoid (Some ''fatigue'') fat x],
                          compiled = Some args\<rparr>"
  have c: "compiled m = Some args" by (simp add: m_def)
  have tr: "train sample_env 5 sample_world sample_trainer =
              train sample_env 5 sample_world (sample_trainer\<lparr>model := Some m\<rparr>)"
    using cm by (simp add: train_def m_def sample_trainer_def)
  obtain td vd m' h where f: "fit sample_env m (fst td) (snd td) vd 5 32 train_callbacks
          (sample_world\<lparr>draws := draws sample_world + 150530000\<rparr>) =
          (sample_world\<lparr>draws := draws sample_world + 150530000,
             calls := calls sample_world @ [Fit_call 800 200 5 32 train_callbacks]\<rparr>, Inr (m', h))"
    and t2: "train sample_env 5 sample_world (sample_trainer\<lparr>model := Some m\<rparr>) =
          (sample_world\<lparr>draws := draws sample_world + 150530000,
             calls := calls sample_world @ [Fit_call 800 200 5 32 train_callbacks]\<rparr>,
           sample_trainer\<lparr>model := Some m', history := Some h\<rparr>, Inr h)"
    using train_through_fit [of "sample_trainer\<lparr>model := Some m\<rparr>" m args sample_env sample_world 5] c
    by auto
  have "val_loss h = [1, 1, 1, 1]" "lr h = [1 / 1000, 1 / 1000, 1 / 1000, 1 / 2000]"
    using fit_history [OF c _ f] by (simp_all add: rate sample_plateau)
  with tr t2 show ?thesis by simp
qed

text \<open>
  Claim C3. When the pretrained weights are available, the model \<^verbatim>\<open>create_model\<close> builds
  runs through the pretrained backbone, every backbone it runs through holds exactly the
  pretrained variables, none of them is a trainable weight and all of them are
  non-trainable weights; and \<^verbatim>\<open>train\<close>, for any number of epochs, succeeds on that model and
  leaves the backbones, with all their variables, as they were.
\<close>

theorem backbone_frozen:
  assumes "imagenet e = Some vs"
  shows "\<exists>m w' m' h.
     create_model e t = (t\<lparr>model := Some m\<rparr>, Inr m)
     \<and> model_backbones m \<noteq> []
     \<and> list_all (\<lambda>bb. bb_variables bb = vs \<and> trainable_weights bb = [] \<and> non_trainable_weights bb = vs)
          (model_backbones m)
     \<and> train e epochs w (t\<lparr>model := Some m\<rparr>) = (w', t\<lparr>model := Some m', history := Some h\<rparr>, Inr h)
     \<and> model_backbones m' = model_backbones m"
proof -
  obtain x emo fat args where cm: "create_model e t =
       (t\<lparr>model := Some \<lparr>inputs = Input [224, 224, 3],
                          outputs = [Dense 5 Softmax (Some ''emotion'') emo x,
                                     Dense 1 Sigmoid (Some ''fatigue'') fat x],
                          compiled = Some args\<rparr>\<rparr>,
        Inr \<lparr>inputs = Input [224, 224, 3],
             outputs = [Dense 5 Softmax (Some ''emotion'') emo x,
                        Dense 1 Sigmoid (Some ''fatigue'') fat x],
             compiled = Some args\<rparr>)"
    and bb: "backbones x = [\<lparr>bb_input_shape = [224, 224, 3], bb_output_shape = [7, 7, 1280],
                        bb_variables = vs, bb_trainable = False\<rparr>]"
    using create_model_Some [OF assms, of t] by blast
  define m where "m = \<lparr>inputs = Input [224, 224, 3],
                          outputs = [Dense 5 Softmax (Some ''emotion'') emo x,
                                     Dense 1 Sigmoid (Some ''fatigue'') fat x],
                          compiled = Some args\<rparr>"
  have mb: "model_backbones m = backbones x @ backbones x"
    by (simp add: m_def model_backbones_def)
  have frozen: "list_all (\<lambda>bb. \<not> bb_trainable bb) (model_backbones m)"
    by (simp add: mb bb)
  have all: "list_all (\<lambda>bb. bb_variables bb = vs \<and> trainable_weights bb = [] \<and> non_trainable_weights bb = vs)
          (model_backbones m)"
    by (simp add: mb bb trainable_weights_def non_trainable_weights_def)
  obtain m' h where tr: "train e epochs w (t\<lparr>model := Some m\<rparr>) =
            (w\<lparr>draws := draws w + 150530000,
               calls := calls w @ [Fit_call 800 200 epochs 32 train_callbacks]\<rparr>,
             t\<lparr>model := Some m', history := Some h\<rparr>, Inr h)"
    and same: "model_backbones m' = model_backbones m"
    using train_with_model [of "t\<lparr>model := Some m\<rparr>" m args e epochs w] frozen
    by (auto simp: m_def)
  have ne: "model_backbones m \<noteq> []" by (simp add: mb bb)
  from cm tr same all ne show ?thesis unfolding m_def [symmetric] by blast
qed

theorem backbone_frozen_witness:
  "imagenet sample_env = Some [\<lparr>var_trainable = True, var_values = [1, 2]\<rparr>,
                               \<lparr>var_trainable = False, var_values = [3]\<rparr>]
   \<and> (\<exists>m w' m' h.
     create_model sample_env sample_trainer = (sample_trainer\<lparr>model := Some m\<rparr>, Inr m)
     \<and> model_backbones m \<noteq> []
     \<and> list_all (\<lambda>bb. bb_variables bb = [\<lparr>var_trainable = True, var_values = [1, 2]\<rparr>,
                                          \<lparr>var_trainable = False, var_values = [3]\<rparr>]
                     \<and> trainable_weights bb = []
                     \<and> non_trainable_weights bb = [\<lparr>var_trainable = True, var_values = [1, 2]\<rparr>,
                                                   \<lparr>var_trainable = False, var_values = [3]\<rparr>])
          (model_backbones m)
     \<and> train sample_env 5 sample_world (sample_trainer\<lparr>model := Some m\<rparr>) =
          (w', sample_trainer\<lparr>model := Some m', history := Some h\<rparr>, Inr h)
     \<and> model_backbones m' = model_backbones m)"
proof -
  have h: "imagenet sample_env = Some [\<lparr>var_trainable = True, var_values = [1, 2]\<rparr>,
                               \<lparr>var_trainable = False, var_values = [3]\<rparr>]"
    by (simp add: sample_env_def)
  show ?thesis using h backbone_frozen [OF h, of sample_trainer 5 sample_world] by blast
qed

text \<open>
  Claim C4. \<^verbatim>\<open>train\<close> passes exactly two callbacks to \<^verbatim>\<open>fit\<close>: early stopping on the
  validation loss with a patience of 3 epochs that restores the best weights, and a
  reduction of the learning rate by the factor 0.5 on the validation loss with a patience
  of 2 epochs, which is strictly shorter. \<^verbatim>\<open>train\<close> fails only when the trainer holds a model
  that was never compiled, or holds none and the pretrained weights cannot be loaded. In
  every other case it makes exactly one call of \<^verbatim>\<open>fit\<close>, with these two callbacks, 800
  training and 200 validation samples, the given epochs and batch size 32; when it fails
  it makes none.
\<close>

theorem train_callbacks_configured:
  "(\<exists>stop_window rate_window.
      train_callbacks = [EarlyStopping ''val_loss'' stop_window True,
                         ReduceLROnPlateau ''val_loss'' (1 / 2) rate_window]
      \<and> rate_window < stop_window)
   \<and> length train_callbacks = 2
   \<and> isl (snd (snd (train e epochs w t))) =
       (case model t of None \<Rightarrow> imagenet e = None | Some m \<Rightarrow> compiled m = None)
   \<and> calls (fst (train e epochs w t)) =
       (if (case model t of None \<Rightarrow> imagenet e = None | Some m \<Rightarrow> compiled m = None) then calls w
        else calls w @ [Fit_call 800 200 epochs 32
                          [EarlyStopping ''val_loss'' 3 True, ReduceLROnPlateau ''val_loss'' (1 / 2) 2]])"
proof -
  have c: "train_callbacks = [EarlyStopping ''val_loss'' 3 True, ReduceLROnPlateau ''val_loss'' (1 / 2) 2]"
    by (simp add: train_callbacks_def)
  have "\<exists>stop_window rate_window.
      train_callbacks = [EarlyStopping ''val_loss'' stop_window True,
                         ReduceLROnPlateau ''val_loss'' (1 / 2) rate_window]
      \<and> rate_window < stop_window"
    by (rule exI [of _ 3], rule exI [of _ 2]) (simp add: c)
  moreover have "length train_callbacks = 2" by (simp add: c)
  moreover have "calls (fst (train e epochs w t)) =
       (if (case model t of None \<Rightarrow> imagenet e = None | Some m \<Rightarrow> compiled m = None) then calls w
        else calls w @ [Fit_call 800 200 epochs 32
                          [EarlyStopping ''val_loss'' 3 True, ReduceLROnPlateau ''val_loss'' (1 / 2) 2]])"
    using train_calls [of e epochs w t] by (simp only: c train_fails_iff)
  ultimately show ?thesis using train_fails_iff [of e epochs w t] by blast
qed

text \<open>
  On the sample run \<^verbatim>\<open>train\<close> succeeds, the one call of \<^verbatim>\<open>fit\<close> carries the two callbacks,
  and the history shows them at work: four epochs instead of five, the last at half the
  learning rate.
\<close>

theorem train_callbacks_configured_witness:
  "\<not> isl (snd (snd (train sample_env 5 sample_world sample_trainer)))
   \<and> calls (fst (train sample_env 5 sample_world sample_trainer)) =
       [Fit_call 800 200 5 32
          [EarlyStopping ''val_loss'' 3 True, ReduceLROnPlateau ''val_loss'' (1 / 2) 2]]
   \<and> (\<exists>w' t' h. train sample_env 5 sample_world sample_trainer = (w', t', Inr h)
         \<and> val_loss h = [1, 1, 1, 1] \<and> lr h = [1 / 1000, 1 / 1000, 1 / 1000, 1 / 2000])"
proof -
  have h1: "model sample_trainer = None" by (simp add: sample_trainer_def)
  have h2: "imagenet sample_env \<noteq> None" by (simp add: sample_env_def)
  have h3: "calls sample_world = []" by (simp add: sample_world_def)
  from train_callbacks_configured [of sample_env 5 sample_world sample_trainer]
  have "\<not> isl (snd (snd (train sample_env 5 sample_world sample_trainer)))"
    and "calls (fst (train sample_env 5 sample_world sample_trainer)) =
       [Fit_call 800 200 5 32
          [EarlyStopping ''val_loss'' 3 True, ReduceLROnPlateau ''val_loss'' (1 / 2) 2]]"
    using h1 h2 h3 by simp_all
  then show ?thesis using sample_train_history by blast
qed

text \<open>
  Claim C10, amended. On a trainer without a model, \<^verbatim>\<open>train\<close> first calls
  \<^verbatim>\<open>create_model\<close>. When the pretrained weights can be loaded, \<^verbatim>\<open>create_model\<close> stores a
  compiled model and \<^verbatim>\<open>train\<close> does not fail: it prepares the data, calls \<^verbatim>\<open>fit\<close> once on
  that model, and returns with \<^verbatim>\<open>self.model\<close> the model as \<^verbatim>\<open>fit\<close> left it (compiled, with the
  same input and the same backbone) and \<^verbatim>\<open>self.history\<close> the history \<^verbatim>\<open>fit\<close> returned, which
  is also the result. When the weights cannot be loaded, \<^verbatim>\<open>create_model\<close> raises and \<^verbatim>\<open>train\<close>
  raises the same exception, leaving the world and the trainer as they were.
\<close>

theorem train_assembles_model:
  assumes "model t = None"
  shows "case imagenet e of
      None \<Rightarrow>
        create_model e t = (t, Inl DownloadError) \<and> train e epochs w t = (w, t, Inl DownloadError)
    | Some vs \<Rightarrow>
        (\<exists>m td vd m' h.
           create_model e t = (t\<lparr>model := Some m\<rparr>, Inr m)
         \<and> compiled m \<noteq> None
         \<and> train e epochs w t = train e epochs w (t\<lparr>model := Some m\<rparr>)
         \<and> prepare_data e w = (w\<lparr>draws := draws w + 150530000\<rparr>, Inr (td, vd))
         \<and> fit e m (fst td) (snd td) vd epochs 32 train_callbacks (w\<lparr>draws := draws w + 150530000\<rparr>) =
              (w\<lparr>draws := draws w + 150530000,
                 calls := calls w @ [Fit_call 800 200 epochs 32 train_callbacks]\<rparr>, Inr (m', h))
         \<and> train e epochs w t =
              (w\<lparr>draws := draws w + 150530000,
                 calls := calls w @ [Fit_call 800 200 epochs 32 train_callbacks]\<rparr>,
               t\<lparr>model := Some m', history := Some h\<rparr>, Inr h)
         \<and> compiled m' \<noteq> None \<and> inputs m' = inputs m
         \<and> model_backbones m' = model_backbones m
         \<and> params_epochs h = epochs)"
proof (cases "imagenet e")
  case None
  then show ?thesis
    using assms by (simp add: create_model_unavailable train_unavailable)
next
  case (Some vs)
  obtain x emo fat args where cm: "create_model e t =
       (t\<lparr>model := Some \<lparr>inputs = Input [224, 224, 3],
                          outputs = [Dense 5 Softmax (Some ''emotion'') emo x,
                                     Dense 1 Sigmoid (Some ''fatigue'') fat x],
                          compiled = Some args\<rparr>\<rparr>,
        Inr \<lparr>inputs = Input [224, 224, 3],
             outputs = [Dense 5 Softmax (Some ''emotion'') emo x,
                        Dense 1 Sigmoid (Some ''fatigue'') fat x],
             compiled = Some args\<rparr>)"
    and bb: "backbones x = [\<lparr>bb_input_shape = [224, 224, 3], bb_output_shape = [7, 7, 1280],
                        bb_variables = vs, bb_trainable = False\<rparr>]"
    using create_model_Some [OF Some, of t] by blast
  define m where "m = \<lparr>inputs = Input [224, 224, 3],
                          outputs = [Dense 5 Softmax (Some ''emotion'') emo x,
                                     Dense 1 Sigmoid (Some ''fatigue'') fat x],
                          compiled = Some args\<rparr>"
  have cm': "create_model e t = (t\<lparr>model := Some m\<rparr>, Inr m)"
    using cm by (simp add: m_def)
  have c: "compiled m = Some args" by (simp add: m_def)
  have frozen: "list_all (\<lambda>bb. \<not> bb_trainable bb) (model_backbones m)"
    by (simp add: m_def model_backbones_def bb)
  have same: "train e epochs w t = train e epochs w (t\<lparr>model := Some m\<rparr>)"
    using assms cm' by (simp add: train_def)
  obtain td vd m' h where pd: "prepare_data e w = (w\<lparr>draws := draws w + 150530000\<rparr>, Inr (td, vd))"
    and f: "fit e m (fst td) (snd td) vd epochs 32 train_callbacks (w\<lparr>draws := draws w + 150530000\<rparr>) =
              (w\<lparr>draws := draws w + 150530000,
                 calls := calls w @ [Fit_call 800 200 epochs 32 train_callbacks]\<rparr>, Inr (m', h))"
    and tr: "train e epochs w (t\<lparr>model := Some m\<rparr>) =
              (w\<lparr>draws := draws w + 150530000,
                 calls := calls w @ [Fit_call 800 200 epochs 32 train_callbacks]\<rparr>,
               t\<lparr>model := Some m', history := Some h\<rparr>, Inr h)"
    and rest: "compiled m' \<noteq> None" "inputs m' = inputs m" "params_epochs h = epochs"
      "model_backbones m' = model_backbones m"
    using train_through_fit [of "t\<lparr>model := Some m\<rparr>" m args e w epochs] c frozen by auto
  have cn: "compiled m \<noteq> None" using c by simp
  have tr': "train e epochs w t =
              (w\<lparr>draws := draws w + 150530000,
                 calls := calls w @ [Fit_call 800 200 epochs 32 train_callbacks]\<rparr>,
               t\<lparr>model := Some m', history := Some h\<rparr>, Inr h)"
    using same tr by simp
  have "\<exists>m td vd m' h.
           create_model e t = (t\<lparr>model := Some m\<rparr>, Inr m)
         \<and> compiled m \<noteq> None
         \<and> train e epochs w t = train e epochs w (t\<lparr>model := Some m\<rparr>)
         \<and> prepare_data e w = (w\<lparr>draws := draws w + 150530000\<rparr>, Inr (td, vd))
         \<and> fit e m (fst td) (snd td) vd epochs 32 train_callbacks (w\<lparr>draws := draws w + 150530000\<rparr>) =
              (w\<lparr>draws := draws w + 150530000,
                 calls := calls w @ [Fit_call 800 200 epochs 32 train_callbacks]\<rparr>, Inr (m', h))
         \<and> train e epochs w t =
              (w\<lparr>draws := draws w + 150530000,
                 calls := calls w @ [Fit_call 800 200 epochs 32 train_callbacks]\<rparr>,
               t\<lparr>model := Some m', history := Some h\<rparr>, Inr h)
         \<and> compiled m' \<noteq> None \<and> inputs m' = inputs m
         \<and> model_backbones m' = model_backbones m
         \<and> params_epochs h = epochs"
    by (rule exI [of _ m], rule exI [of _ td], rule exI [of _ vd], rule exI [of _ m'], rule exI [of _ h])
       (intro conjI cm' cn same pd f tr' rest)
  then show ?thesis using Some by simp
qed

theorem train_assembles_model_witness:
  "model sample_trainer = None
   \<and> (\<exists>m td vd m' h.
           create_model sample_env sample_trainer = (sample_trainer\<lparr>model := Some m\<rparr>, Inr m)
         \<and> compiled m \<noteq> None
         \<and> train sample_env 5 sample_world sample_trainer =
             train sample_env 5 sample_world (sample_trainer\<lparr>model := Some m\<rparr>)
         \<and> prepare_data sample_env sample_world =
             (sample_world\<lparr>draws := draws sample_world + 150530000\<rparr>, Inr (td, vd))
         \<and> fit sample_env m (fst td) (snd td) vd 5 32 train_callbacks
              (sample_world\<lparr>draws := draws sample_world + 150530000\<rparr>) =
              (sample_world\<lparr>draws := draws sample_world + 150530000,
                 calls := calls sample_world @ [Fit_call 800 200 5 32 train_callbacks]\<rparr>, Inr (m', h))
         \<and> train sample_env 5 sample_world sample_trainer =
              (sample_world\<lparr>draws := draws sample_world + 150530000,
                 calls := calls sample_world @ [Fit_call 800 200 5 32 train_callbacks]\<rparr>,
               sample_trainer\<lparr>model := Some m', history := Some h\<rparr>, Inr h)
         \<and> compiled m' \<noteq> None \<and> inputs m' = inputs m
         \<and> model_backbones m' = model_backbones m
         \<and> params_epochs h = 5)"
proof -
  have h1: "model sample_trainer = None" by (simp add: sample_trainer_def)
  have h2: "imagenet sample_env = Some [\<lparr>var_trainable = True, var_values = [1, 2]\<rparr>,
                               \<lparr>var_trainable = False, var_values = [3]\<rparr>]"
    by (simp add: sample_env_def)
  show ?thesis
    using h1 train_assembles_model [OF h1, of sample_env 5 sample_world]
    by (simp only: h2 option.case simp_thms)
qed

text \<open>
  Without the pretrained weights, \<^verbatim>\<open>train\<close> on a trainer without a model fails.
\<close>

theorem train_fails_without_weights:
  "model sample_trainer = None
   \<and> train (sample_env\<lparr>imagenet := None\<rparr>) 5 sample_world sample_trainer =
       (sample_world, sample_trainer, Inl DownloadError)"
  by (simp add: sample_trainer_def train_def create_model_def MobileNetV2_def)

subsection \<open>The latency benchmark\<close>

lemma warm_up_calls:
  "warm_up n m x w = w\<lparr>calls := calls w @ replicate n (Predict_call (shape x))\<rparr>"
proof (induction n arbitrary: w)
  case 0
  show ?case by simp
next
  case (Suc n)
  show ?case by (simp add: Suc.IH predict_def replicate_app_Cons_same)
qed

lemma measure_latencies_result:
  "measure_latencies e n m x w ls =
     (w\<lparr>ticks := ticks w + 2 * n,
        calls := calls w @ concat (replicate n [Time_call, Predict_call (shape x), Time_call])\<rparr>,
      ls @ map (\<lambda>i. (clock e (ticks w + 2 * i + 1) - clock e (ticks w + 2 * i)) * 1000) [0..<n])"
proof (induction n arbitrary: w ls)
  case 0
  show ?case by simp
next
  case (Suc n)
  have m: "map f [0..<Suc n] = f 0 # map (\<lambda>i. f (Suc i)) [0..<n]" for f :: "nat \<Rightarrow> real"
    by (simp add: map_upt_Suc del: upt_Suc)
  show ?case
    apply (subst m)
    apply (simp add: Suc.IH time_time_def predict_def Let_def del: upt_Suc)
    done
qed

lemma evaluate_latency_result:
  assumes "model t = Some m"
  shows "evaluate_latency e w t =
     (w\<lparr>draws := draws w + 150528, ticks := ticks w + 200,
        calls := calls w @ replicate 10 (Predict_call [1, 224, 224, 3])
                  @ concat (replicate 100 [Time_call, Predict_call [1, 224, 224, 3], Time_call]),
        stdout := stdout w @ [Average_inference_latency
          (np_mean (map (\<lambda>i. (clock e (ticks w + 2 * i + 1) - clock e (ticks w + 2 * i)) * 1000) [0..<100]))]\<rparr>,
      t,
      Inr (np_mean (map (\<lambda>i. (clock e (ticks w + 2 * i + 1) - clock e (ticks w + 2 * i)) * 1000) [0..<100])))"
  using assms
  by (simp only: evaluate_latency_def np_random_rand_def Let_def split_conv option.case
        warm_up_calls measure_latencies_result print_def)
     simp

lemma calls_updated: "calls (w\<lparr>draws := a, ticks := b, calls := c, stdout := d\<rparr>) = c"
  by simp

lemma np_mean_nonneg:
  assumes "\<And>x. x \<in> set xs \<Longrightarrow> 0 \<le> x"
  shows "0 \<le> np_mean xs"
  unfolding np_mean_def using assms by (simp add: sum_list_nonneg)

lemma sum_list_const: "sum_list (map (\<lambda>i. c) [0..<n]) = real n * c"
  by (induction n) (simp_all add: algebra_simps)

text \<open>
  Claim C5, amended. On a trainer that holds a model, \<^verbatim>\<open>evaluate_latency\<close> makes 10 warm-up
  predictions on one sample without reading the clock, then 100 predictions each between
  two clock readings, and returns the mean of exactly these 100 differences in
  milliseconds. The mean is non-negative when the clock never runs backwards.
\<close>

theorem evaluate_latency_average:
  assumes "model t = Some m"
  shows "\<exists>w' latencies.
     evaluate_latency e w t = (w', t, Inr (np_mean latencies))
     \<and> latencies = map (\<lambda>i. (clock e (ticks w + 2 * i + 1) - clock e (ticks w + 2 * i)) * 1000) [0..<100]
     \<and> length latencies = 100
     \<and> np_mean latencies = sum_list latencies / 100
     \<and> calls w' = calls w @ replicate 10 (Predict_call [1, 224, 224, 3])
                    @ concat (replicate 100 [Time_call, Predict_call [1, 224, 224, 3], Time_call])
     \<and> ((\<forall>n. clock e n \<le> clock e (Suc n)) \<longrightarrow> 0 \<le> np_mean latencies)"
proof -
  let ?ls = "map (\<lambda>i. (clock e (ticks w + 2 * i + 1) - clock e (ticks w + 2 * i)) * 1000) [0..<100]"
  have len: "length ?ls = 100" by (simp only: length_map length_upt diff_zero)
  have mean: "np_mean ?ls = sum_list ?ls / 100"
    unfolding np_mean_def by (simp only: len of_nat_numeral)
  have nonneg: "0 \<le> np_mean ?ls" if mono: "\<forall>n. clock e n \<le> clock e (Suc n)"
  proof (rule np_mean_nonneg)
    fix x assume "x \<in> set ?ls"
    then obtain i where "x = (clock e (ticks w + 2 * i + 1) - clock e (ticks w + 2 * i)) * 1000"
      by (auto simp only: set_map)
    moreover have "clock e (ticks w + 2 * i) \<le> clock e (ticks w + 2 * i + 1)"
      using mono by (metis Suc_eq_plus1)
    ultimately show "0 \<le> x" by simp
  qed
  show ?thesis
    apply (subst evaluate_latency_result [OF assms])
    apply (intro exI conjI)
         apply (rule refl)
        apply (rule refl)
       apply (rule len)
      apply (rule mean)
     apply (rule calls_updated)
    using nonneg apply blast
    done
qed

theorem evaluate_latency_average_witness:
  "model (sample_trainer\<lparr>model := Some \<lparr>inputs = Input [224, 224, 3], outputs = [], compiled = None\<rparr>\<rparr>)
     = Some \<lparr>inputs = Input [224, 224, 3], outputs = [], compiled = None\<rparr>
   \<and> (\<forall>n. clock sample_env n \<le> clock sample_env (Suc n))
   \<and> (\<exists>w' latencies.
     evaluate_latency sample_env sample_world
       (sample_trainer\<lparr>model := Some \<lparr>inputs = Input [224, 224, 3], outputs = [], compiled = None\<rparr>\<rparr>)
       = (w', sample_trainer\<lparr>model := Some \<lparr>inputs = Input [224, 224, 3], outputs = [], compiled = None\<rparr>\<rparr>,
          Inr (np_mean latencies))
     \<and> length latencies = 100
     \<and> calls w' = calls sample_world @ replicate 10 (Predict_call [1, 224, 224, 3])
                    @ concat (replicate 100 [Time_call, Predict_call [1, 224, 224, 3], Time_call])
     \<and> 0 \<le> np_mean latencies)"
proof -
  let ?t = "sample_trainer\<lparr>model := Some \<lparr>inputs = Input [224, 224, 3], outputs = [], compiled = None\<rparr>\<rparr>"
  have h1: "model ?t = Some \<lparr>inputs = Input [224, 224, 3], outputs = [], compiled = None\<rparr>"
    by simp
  have h2: "\<forall>n. clock sample_env n \<le> clock sample_env (Suc n)"
    by (simp add: sample_env_def)
  show ?thesis
    using h1 h2 evaluate_latency_average [OF h1, of sample_env sample_world] by blast
qed

text \<open>
  A clock that is set back by 200 seconds during the first measurement: the first duration
  is \<open>-199\<close> seconds, the other 99 are one second each.
\<close>

theorem evaluate_latency_negative:
  "snd (snd (evaluate_latency (sample_env\<lparr>clock := (\<lambda>n. if n = 0 then 0 else real n - 200)\<rparr>) sample_world
       (sample_trainer\<lparr>model := Some \<lparr>inputs = Input [224, 224, 3], outputs = [], compiled = None\<rparr>\<rparr>)))
     = Inr (- 1000)
   \<and> (- 1000 :: real) < 0"
proof -
  let ?e = "sample_env\<lparr>clock := (\<lambda>n. if n = 0 then 0 else real n - 200)\<rparr>"
  let ?t = "sample_trainer\<lparr>model := Some \<lparr>inputs = Input [224, 224, 3], outputs = [], compiled = None\<rparr>\<rparr>"
  have h1: "model ?t = Some \<lparr>inputs = Input [224, 224, 3], outputs = [], compiled = None\<rparr>"
    by simp
  have split: "[0..<100] = 0 # map Suc [0..<99]"
    by (simp only: map_Suc_upt) (simp add: upt_conv_Cons del: upt_Suc)
  have rest: "map (\<lambda>i. (clock ?e (ticks sample_world + 2 * i + 1) - clock ?e (ticks sample_world + 2 * i)) * 1000)
                (map Suc [0..<99]) = map (\<lambda>i. 1000) [0..<99]"
    by (simp add: sample_world_def del: upt_Suc)
  have first: "(clock ?e (ticks sample_world + 2 * 0 + 1) - clock ?e (ticks sample_world + 2 * 0)) * 1000 = - 199000"
    by (simp add: sample_world_def)
  have "np_mean (map (\<lambda>i. (clock ?e (ticks sample_world + 2 * i + 1) - clock ?e (ticks sample_world + 2 * i)) * 1000) [0..<100])
          = - 1000"
    unfolding np_mean_def
    apply (subst split)+
    apply (simp only: list.map first rest sum_list.Cons sum_list_const length_Cons length_map length_upt)
    apply simp
    done
  then show ?thesis
    by (simp only: evaluate_latency_result [OF h1] snd_conv) simp
qed

subsection \<open>The configuration\<close>

lemma main_config_text:
  "json_dumps main_config 2 =
     ''{\<newline>  \"output_path\": \"models\",\<newline>  \"epochs\": 5,\<newline>  \"batch_size\": 32\<newline>}''"
  by code_simp

lemma json_round_trip: "json_loads (json_dumps main_config 2) = Some main_config"
  by code_simp

lemma models_prefixes: "path_prefixes [] ''models/tfjs'' = [''models'', ''models/tfjs'']"
  by simp

lemma config_dirname: "dirname ''config/training_config.json'' = ''config''"
  by (simp add: dirname_def)

lemma main_setup_result:
  assumes "''config'' \<in> dirs w" and "''config/training_config.json'' \<notin> dirs w"
    and "''models'' \<notin> dom (files w)" and "''models/tfjs'' \<notin> dom (files w)"
  shows "main_setup w =
     (w\<lparr>dirs := dirs w \<union> {''models'', ''models/tfjs''},
        files := (files w)(''config/training_config.json'' \<mapsto> json_dumps main_config 2)\<rparr>,
      Inr \<lparr>config = main_config, model = None, history = None\<rparr>)"
  using assms
  by (simp add: main_setup_def makedirs_def models_prefixes write_file_def config_dirname
      MicroMentorTrainer_def default_config_path_def read_file_def json_round_trip)



lemma create_model_config:
  "create_model e (t\<lparr>config := c\<rparr>) = (case create_model e t of (t', r) \<Rightarrow> (t'\<lparr>config := c\<rparr>, r))"
  by (simp add: create_model_def Let_def split: sum.splits)

lemma create_model_keeps_config: "config (fst (create_model e t)) = config t"
  by (simp add: create_model_def Let_def split: sum.splits)

lemma train_config:
  "train e epochs w (t\<lparr>config := c\<rparr>) = (case train e epochs w t of (w', t', r) \<Rightarrow> (w', t'\<lparr>config := c\<rparr>, r))"
  by (simp add: train_def create_model_config split: option.splits prod.splits sum.splits)

lemma train_keeps_config: "config (fst (snd (train e epochs w t))) = config t"
proof (cases "model t")
  case None
  obtain t1 r where cm: "create_model e t = (t1, r)" by (cases "create_model e t")
  have "config t1 = config t" using create_model_keeps_config [of e t] cm by simp
  then show ?thesis using None cm
    by (simp add: train_def split: option.splits prod.splits sum.splits)
next
  case (Some m)
  then show ?thesis
    by (simp add: train_def split: option.splits prod.splits sum.splits)
qed

lemma output_path_config:
  "map_of c1 ''output_path'' = map_of c2 ''output_path'' \<Longrightarrow>
   output_path (t\<lparr>config := c2\<rparr>) = output_path (t\<lparr>config := c1\<rparr>)"
  by (simp add: output_path_def)

lemma optimize_for_edge_config:
  assumes "map_of c1 ''output_path'' = map_of c2 ''output_path''"
  shows "optimize_for_edge e w (t\<lparr>config := c2\<rparr>) =
     (case optimize_for_edge e w (t\<lparr>config := c1\<rparr>) of (w', t', r) \<Rightarrow> (w', t'\<lparr>config := c2\<rparr>, r))"
  using output_path_config [OF assms, of t]
  by (simp add: optimize_for_edge_def Let_def split: prod.splits sum.splits)

lemma optimize_for_edge_keeps_config: "config (fst (snd (optimize_for_edge e w t))) = config t"
  by (simp add: optimize_for_edge_def Let_def split: prod.splits sum.splits)

lemma save_model_config:
  assumes "map_of c1 ''output_path'' = map_of c2 ''output_path''"
  shows "save_model e w (t\<lparr>config := c2\<rparr>) =
     (case save_model e w (t\<lparr>config := c1\<rparr>) of (w', t', r) \<Rightarrow> (w', t'\<lparr>config := c2\<rparr>, r))"
  using output_path_config [OF assms, of t]
  by (simp add: save_model_def Let_def split: prod.splits sum.splits option.splits)

lemma save_model_keeps_config: "config (fst (snd (save_model e w t))) = config t"
  by (simp add: save_model_def Let_def split: prod.splits sum.splits option.splits)

lemma evaluate_latency_config:
  "evaluate_latency e w (t\<lparr>config := c\<rparr>) =
     (case evaluate_latency e w t of (w', t', r) \<Rightarrow> (w', t'\<lparr>config := c\<rparr>, r))"
  by (simp add: evaluate_latency_def Let_def split: prod.splits option.splits)

lemma evaluate_latency_keeps_config: "config (fst (snd (evaluate_latency e w t))) = config t"
  by (simp add: evaluate_latency_def Let_def split: prod.splits option.splits)

lemma constructor_config:
  "map_sum id config (MicroMentorTrainer path w) =
     (case read_file path w of
        Inl err \<Rightarrow> Inl err
      | Inr s \<Rightarrow> (case json_loads s of None \<Rightarrow> Inl JSONDecodeError | Some d \<Rightarrow> Inr d))"
  by (simp add: MicroMentorTrainer_def split: sum.splits option.splits)

text \<open>
  Claim C8. The configuration is what the constructor parsed from the file at the given
  path, read once in the state the world has at construction, and every method that works on
  the trainer (\<^verbatim>\<open>create_model\<close>, \<^verbatim>\<open>train\<close>, \<^verbatim>\<open>optimize_for_edge\<close>, \<^verbatim>\<open>save_model\<close>,
  \<^verbatim>\<open>evaluate_latency\<close>) leaves it as it was, whether the method returns or raises.
  \<^verbatim>\<open>prepare_data\<close> does not touch the trainer at all.
\<close>

theorem config_immutable:
  "map_sum id config (MicroMentorTrainer path w) =
     (case read_file path w of
        Inl err \<Rightarrow> Inl err
      | Inr s \<Rightarrow> (case json_loads s of None \<Rightarrow> Inl JSONDecodeError | Some d \<Rightarrow> Inr d))
   \<and> config (fst (create_model e t)) = config t
   \<and> config (fst (snd (train e epochs w t))) = config t
   \<and> config (fst (snd (optimize_for_edge e w t))) = config t
   \<and> config (fst (snd (save_model e w t))) = config t
   \<and> config (fst (snd (evaluate_latency e w t))) = config t"
  by (intro conjI constructor_config create_model_keeps_config train_keeps_config
        optimize_for_edge_keeps_config save_model_keeps_config evaluate_latency_keeps_config)

text \<open>
  Claim C9. For two configurations with the same entry for \<^verbatim>\<open>output_path\<close>, every method
  has the same effect on the world, the same result and the same trainer apart from the
  configuration it carries. \<^verbatim>\<open>train\<close> calls \<^verbatim>\<open>fit\<close> with its own \<^verbatim>\<open>epochs\<close> argument and
  the batch size 32.
\<close>

theorem config_only_output_path:
  assumes "map_of c1 ''output_path'' = map_of c2 ''output_path''"
  shows "create_model e (t\<lparr>config := c2\<rparr>) =
       (case create_model e (t\<lparr>config := c1\<rparr>) of (t', r) \<Rightarrow> (t'\<lparr>config := c2\<rparr>, r))
   \<and> train e epochs w (t\<lparr>config := c2\<rparr>) =
       (case train e epochs w (t\<lparr>config := c1\<rparr>) of (w', t', r) \<Rightarrow> (w', t'\<lparr>config := c2\<rparr>, r))
   \<and> optimize_for_edge e w (t\<lparr>config := c2\<rparr>) =
       (case optimize_for_edge e w (t\<lparr>config := c1\<rparr>) of (w', t', r) \<Rightarrow> (w', t'\<lparr>config := c2\<rparr>, r))
   \<and> save_model e w (t\<lparr>config := c2\<rparr>) =
       (case save_model e w (t\<lparr>config := c1\<rparr>) of (w', t', r) \<Rightarrow> (w', t'\<lparr>config := c2\<rparr>, r))
   \<and> evaluate_latency e w (t\<lparr>config := c2\<rparr>) =
       (case evaluate_latency e w (t\<lparr>config := c1\<rparr>) of (w', t', r) \<Rightarrow> (w', t'\<lparr>config := c2\<rparr>, r))
   \<and> calls (fst (train e epochs w (t\<lparr>config := c2\<rparr>))) =
       (if isl (snd (snd (train e epochs w (t\<lparr>config := c2\<rparr>)))) then calls w
        else calls w @ [Fit_call 800 200 epochs 32 train_callbacks])"
proof -
  have a: "create_model e (t\<lparr>config := c2\<rparr>) =
       (case create_model e (t\<lparr>config := c1\<rparr>) of (t', r) \<Rightarrow> (t'\<lparr>config := c2\<rparr>, r))"
    using create_model_config [where t = "t\<lparr>config := c1\<rparr>" and c = c2 and e = e] by simp
  have b: "train e epochs w (t\<lparr>config := c2\<rparr>) =
       (case train e epochs w (t\<lparr>config := c1\<rparr>) of (w', t', r) \<Rightarrow> (w', t'\<lparr>config := c2\<rparr>, r))"
    using train_config [where t = "t\<lparr>config := c1\<rparr>" and c = c2 and e = e and epochs = epochs and w = w] by simp
  have c: "evaluate_latency e w (t\<lparr>config := c2\<rparr>) =
       (case evaluate_latency e w (t\<lparr>config := c1\<rparr>) of (w', t', r) \<Rightarrow> (w', t'\<lparr>config := c2\<rparr>, r))"
    using evaluate_latency_config [where t = "t\<lparr>config := c1\<rparr>" and c = c2 and e = e and w = w] by simp
  show ?thesis
    by (intro conjI a b c optimize_for_edge_config [OF assms] save_model_config [OF assms] train_calls)
qed

theorem config_only_output_path_witness:
  "map_of main_config ''output_path''
     = map_of [(''output_path'', JStr ''models''), (''epochs'', JInt 50), (''batch_size'', JInt 8)] ''output_path''
   \<and> map_of main_config ''epochs''
     \<noteq> map_of [(''output_path'', JStr ''models''), (''epochs'', JInt 50), (''batch_size'', JInt 8)] ''epochs''
   \<and> map_of main_config ''batch_size''
     \<noteq> map_of [(''output_path'', JStr ''models''), (''epochs'', JInt 50), (''batch_size'', JInt 8)] ''batch_size''
   \<and> train sample_env 5 sample_world
       (sample_trainer\<lparr>config := [(''output_path'', JStr ''models''), (''epochs'', JInt 50), (''batch_size'', JInt 8)]\<rparr>) =
       (case train sample_env 5 sample_world (sample_trainer\<lparr>config := main_config\<rparr>) of
          (w', t', r) \<Rightarrow>
            (w', t'\<lparr>config := [(''output_path'', JStr ''models''), (''epochs'', JInt 50), (''batch_size'', JInt 8)]\<rparr>, r))
   \<and> optimize_for_edge sample_env sample_world
       (sample_trainer\<lparr>config := [(''output_path'', JStr ''models''), (''epochs'', JInt 50), (''batch_size'', JInt 8)]\<rparr>) =
       (case optimize_for_edge sample_env sample_world (sample_trainer\<lparr>config := main_config\<rparr>) of
          (w', t', r) \<Rightarrow>
            (w', t'\<lparr>config := [(''output_path'', JStr ''models''), (''epochs'', JInt 50), (''batch_size'', JInt 8)]\<rparr>, r))
   \<and> save_model sample_env sample_world
       (sample_trainer\<lparr>config := [(''output_path'', JStr ''models''), (''epochs'', JInt 50), (''batch_size'', JInt 8)]\<rparr>) =
       (case save_model sample_env sample_world (sample_trainer\<lparr>config := main_config\<rparr>) of
          (w', t', r) \<Rightarrow>
            (w', t'\<lparr>config := [(''output_path'', JStr ''models''), (''epochs'', JInt 50), (''batch_size'', JInt 8)]\<rparr>, r))"
proof -
  let ?c2 = "[(''output_path'', JStr ''models''), (''epochs'', JInt 50), (''batch_size'', JInt 8)]"
  have h: "map_of main_config ''output_path'' = map_of ?c2 ''output_path''"
    by (simp add: main_config_def)
  have d1: "map_of main_config ''epochs'' \<noteq> map_of ?c2 ''epochs''"
    by (simp add: main_config_def)
  have d2: "map_of main_config ''batch_size'' \<noteq> map_of ?c2 ''batch_size''"
    by (simp add: main_config_def)
  from config_only_output_path [OF h, where e = sample_env and t = sample_trainer and epochs = 5 and w = sample_world]
  show ?thesis using h d1 d2 by blast
qed

subsection \<open>Edge optimisation and persistence\<close>

text \<open>
  What \<^verbatim>\<open>optimize_for_edge\<close> and \<^verbatim>\<open>save_model\<close> do on a trainer that holds a model, when
  the configured output directory exists and no directory stands where a file is written.
\<close>

lemma output_path_Some:
  "map_of (config t) ''output_path'' = Some (JStr out) \<Longrightarrow> output_path t = Inr out"
  by (simp add: output_path_def)

lemma optimize_for_edge_result:
  assumes "model t = Some m" and "map_of (config t) ''output_path'' = Some (JStr out)"
    and "dirname (os_path_join out ''micromentor_edge.tflite'') \<in> dirs w"
    and "os_path_join out ''micromentor_edge.tflite'' \<notin> dirs w"
  shows "optimize_for_edge e w t =
     (w\<lparr>calls := calls w @ [Convert_call [DEFAULT] [Float16]],
        files := (files w)
          (os_path_join out ''micromentor_edge.tflite'' \<mapsto>
             tflite_bytes e \<lparr>conv_model = Some m, optimizations = [DEFAULT], supported_types = [Float16]\<rparr>),
        stdout := stdout w @
          [Optimized_model_size
             (real (length (tflite_bytes e
                \<lparr>conv_model = Some m, optimizations = [DEFAULT], supported_types = [Float16]\<rparr>))
              / (1024 * 1024))]\<rparr>,
      t, Inr (os_path_join out ''micromentor_edge.tflite''))"
  using assms
  by (simp add: optimize_for_edge_def convert_def output_path_Some write_file_def print_def Let_def)

lemma save_model_result:
  assumes "model t = Some m" and "map_of (config t) ''output_path'' = Some (JStr out)"
    and "dirname (os_path_join out ''micromentor_model.h5'') \<in> dirs w"
    and "os_path_join out ''micromentor_model.h5'' \<notin> dirs w"
    and "saved_model_save e m (os_path_join out ''tfjs'')
           (w\<lparr>files := (files w)(os_path_join out ''micromentor_model.h5'' \<mapsto> h5_bytes e m)\<rparr>) = (w2, Inr ())"
  shows "save_model e w t =
     (w2\<lparr>stdout := stdout w2 @
          [Text (''Model saved to '' @ os_path_join out ''micromentor_model.h5''),
           Text (''TensorFlow.js model saved to '' @ os_path_join out ''tfjs'')]\<rparr>,
      t, Inr ())"
  using assms
  by (simp add: save_model_def output_path_Some write_file_def print_def Let_def)

subsection \<open>The whole script\<close>

lemma main_epochs_eq: "main_epochs = Inr 5"
  by (simp add: main_epochs_def main_config_def)

lemma main_paths:
  "os_path_join ''models'' ''micromentor_edge.tflite'' = ''models/micromentor_edge.tflite''"
  "os_path_join ''models'' ''micromentor_model.h5'' = ''models/micromentor_model.h5''"
  "os_path_join ''models'' ''tfjs'' = ''models/tfjs''"
  "os_path_join ''models/tfjs'' ''saved_model.pb'' = ''models/tfjs/saved_model.pb''"
  "dirname ''models/micromentor_edge.tflite'' = ''models''"
  "dirname ''models/micromentor_model.h5'' = ''models''"
  "dirname ''models/tfjs/saved_model.pb'' = ''models/tfjs''"
  by (simp_all add: os_path_join_def dirname_def)

text \<open>
  In a working directory that holds the \<^verbatim>\<open>config\<close> directory, where no file or directory
  stands in the way of what the script creates, and with the pretrained weights at hand,
  \<^verbatim>\<open>main\<close> runs to its end: it leaves the configuration file and the three model files, and
  it has called \<^verbatim>\<open>fit\<close> once for 5 epochs, the converter once, and \<^verbatim>\<open>predict\<close> 110 times.
\<close>

lemma main_succeeds:
  assumes "''config'' \<in> dirs w" and "''config/training_config.json'' \<notin> dirs w"
    and "''models'' \<notin> dom (files w)" and "''models/tfjs'' \<notin> dom (files w)"
    and "''models/micromentor_edge.tflite'' \<notin> dirs w" and "''models/micromentor_model.h5'' \<notin> dirs w"
    and "''models/tfjs/saved_model.pb'' \<notin> dirs w"
    and "imagenet e = Some vs"
  shows "\<exists>w'. main e w = (w', Inr ())
     \<and> dom (files w') = dom (files w) \<union>
          {''config/training_config.json'', ''models/micromentor_edge.tflite'',
           ''models/micromentor_model.h5'', ''models/tfjs/saved_model.pb''}
     \<and> calls w' = calls w @ [Fit_call 800 200 5 32 train_callbacks, Convert_call [DEFAULT] [Float16]]
          @ replicate 10 (Predict_call [1, 224, 224, 3])
          @ concat (replicate 100 [Time_call, Predict_call [1, 224, 224, 3], Time_call])"
proof -
  let ?t0 = "\<lparr>config = main_config, model = None, history = None\<rparr>"
  let ?w1 = "w\<lparr>dirs := dirs w \<union> {''models'', ''models/tfjs''},
        files := (files w)(''config/training_config.json'' \<mapsto> json_dumps main_config 2)\<rparr>"
  have s1: "main_setup w = (?w1, Inr ?t0)"
    by (rule main_setup_result [OF assms(1-4)])
  obtain x emo fat args where cm: "create_model e ?t0 =
       (?t0\<lparr>model := Some \<lparr>inputs = Input [224, 224, 3],
                          outputs = [Dense 5 Softmax (Some ''emotion'') emo x,
                                     Dense 1 Sigmoid (Some ''fatigue'') fat x],
                          compiled = Some args\<rparr>\<rparr>,
        Inr \<lparr>inputs = Input [224, 224, 3],
             outputs = [Dense 5 Softmax (Some ''emotion'') emo x,
                        Dense 1 Sigmoid (Some ''fatigue'') fat x],
             compiled = Some args\<rparr>)"
    using create_model_Some [OF assms(8), of ?t0] by blast
  define m where "m = \<lparr>inputs = Input [224, 224, 3],
                          outputs = [Dense 5 Softmax (Some ''emotion'') emo x,
                                     Dense 1 Sigmoid (Some ''fatigue'') fat x],
                          compiled = Some args\<rparr>"
  have cm': "create_model e ?t0 = (?t0\<lparr>model := Some m\<rparr>, Inr m)"
    using cm by (simp add: m_def)
  define w2 where "w2 = ?w1\<lparr>stdout := stdout w @
      [Text ''Creating MicroMentor model...'', Text (backslash_n @ ''Model Summary:''),
       Model_summary m, Text (backslash_n @ ''Training model...'')]\<rparr>"
  obtain m' h where tr: "train e 5 w2 (?t0\<lparr>model := Some m\<rparr>) =
            (w2\<lparr>draws := draws w2 + 150530000,
                calls := calls w2 @ [Fit_call 800 200 5 32 train_callbacks]\<rparr>,
             ?t0\<lparr>model := Some m', history := Some h\<rparr>, Inr h)"
    using train_with_model [of "?t0\<lparr>model := Some m\<rparr>" m args e 5 w2]
    by (auto simp: m_def)
  let ?t2 = "?t0\<lparr>model := Some m', history := Some h\<rparr>"
  define w3 where "w3 = w2\<lparr>draws := draws w2 + 150530000,
      calls := calls w2 @ [Fit_call 800 200 5 32 train_callbacks],
      stdout := stdout w2 @ [Text (backslash_n @ ''Optimizing for edge deployment...'')]\<rparr>"
  have cfg: "map_of (config ?t2) ''output_path'' = Some (JStr ''models'')"
    by (simp add: main_config_def)
  have opt: "optimize_for_edge e w3 ?t2 =
     (w3\<lparr>calls := calls w3 @ [Convert_call [DEFAULT] [Float16]],
        files := (files w3)
          (''models/micromentor_edge.tflite'' \<mapsto>
             tflite_bytes e \<lparr>conv_model = Some m', optimizations = [DEFAULT], supported_types = [Float16]\<rparr>),
        stdout := stdout w3 @
          [Optimized_model_size
             (real (length (tflite_bytes e
                \<lparr>conv_model = Some m', optimizations = [DEFAULT], supported_types = [Float16]\<rparr>))
              / (1024 * 1024))]\<rparr>,
      ?t2, Inr ''models/micromentor_edge.tflite'')"
    using optimize_for_edge_result [of ?t2 m' "''models''" w3 e] cfg assms(5)
    by (simp add: main_paths w3_def w2_def)
  define w4 where "w4 = w3\<lparr>calls := calls w3 @ [Convert_call [DEFAULT] [Float16]],
        files := (files w3)
          (''models/micromentor_edge.tflite'' \<mapsto>
             tflite_bytes e \<lparr>conv_model = Some m', optimizations = [DEFAULT], supported_types = [Float16]\<rparr>),
        stdout := stdout w3 @
          [Optimized_model_size
             (real (length (tflite_bytes e
                \<lparr>conv_model = Some m', optimizations = [DEFAULT], supported_types = [Float16]\<rparr>))
              / (1024 * 1024)),
           Text (backslash_n @ ''Saving models...'')]\<rparr>"
  define w5 where "w5 = w4\<lparr>files := (files w4)
        (''models/micromentor_model.h5'' \<mapsto> h5_bytes e m',
         ''models/tfjs/saved_model.pb'' \<mapsto> saved_model_bytes e m')\<rparr>"
  have sms: "saved_model_save e m' ''models/tfjs''
           (w4\<lparr>files := (files w4)(''models/micromentor_model.h5'' \<mapsto> h5_bytes e m')\<rparr>) = (w5, Inr ())"
    using assms(3,4,7)
    by (simp add: saved_model_save_def makedirs_def models_prefixes write_file_def main_paths
          w5_def w4_def w3_def w2_def insert_absorb)
  have sav: "save_model e w4 ?t2 =
     (w5\<lparr>stdout := stdout w5 @
          [Text (''Model saved to '' @ ''models/micromentor_model.h5''),
           Text (''TensorFlow.js model saved to '' @ ''models/tfjs'')]\<rparr>,
      ?t2, Inr ())"
    using save_model_result [of ?t2 m' "''models''" w4 e w5] cfg assms(6) sms
    by (simp add: main_paths w4_def w3_def w2_def)
  define w6 where "w6 = w5\<lparr>stdout := stdout w5 @
          [Text (''Model saved to '' @ ''models/micromentor_model.h5''),
           Text (''TensorFlow.js model saved to '' @ ''models/tfjs''),
           Text (backslash_n @ ''Evaluating latency...'')]\<rparr>"
  have lat: "\<exists>w7 avg. evaluate_latency e w6 ?t2 = (w7, ?t2, Inr avg)
      \<and> files w7 = files w6
      \<and> calls w7 = calls w6 @ replicate 10 (Predict_call [1, 224, 224, 3])
          @ concat (replicate 100 [Time_call, Predict_call [1, 224, 224, 3], Time_call])"
    by (subst evaluate_latency_result [of ?t2 m']) simp_all
  then obtain w7 avg where ev: "evaluate_latency e w6 ?t2 = (w7, ?t2, Inr avg)"
    and f7: "files w7 = files w6"
    and c7: "calls w7 = calls w6 @ replicate 10 (Predict_call [1, 224, 224, 3])
          @ concat (replicate 100 [Time_call, Predict_call [1, 224, 224, 3], Time_call])"
    by blast
  have outp: "map_of main_config ''output_path'' = Some (JStr ''models'')"
    by (simp add: main_config_def)
  have run: "main e w =
     (w7\<lparr>stdout := stdout w7 @
         [Text (backslash_n @ [CHR 0xE2, CHR 0x9C, CHR 0x85] @ '' Training complete!''),
          Text (''Models saved in '' @ ''models'' @ '' directory'')]\<rparr>, Inr ())"
    using tr opt sav ev outp
    by (simp add: main_def s1 cm' main_epochs_eq print_def w2_def w3_def w4_def w5_def w6_def)
  have files: "dom (files w6) = dom (files w) \<union>
          {''config/training_config.json'', ''models/micromentor_edge.tflite'',
           ''models/micromentor_model.h5'', ''models/tfjs/saved_model.pb''}"
    by (auto simp: w6_def w5_def w4_def w3_def w2_def)
  have cs: "calls w6 = calls w @ [Fit_call 800 200 5 32 train_callbacks, Convert_call [DEFAULT] [Float16]]"
    by (simp add: w6_def w5_def w4_def w3_def w2_def)
  show ?thesis
    by (rule exI [of _ "w7\<lparr>stdout := stdout w7 @
         [Text (backslash_n @ [CHR 0xE2, CHR 0x9C, CHR 0x85] @ '' Training complete!''),
          Text (''Models saved in '' @ ''models'' @ '' directory'')]\<rparr>"])
       (simp add: run f7 c7 files cs)
qed

lemma main_sample_run:
  "\<exists>w'. main sample_env sample_world = (w', Inr ())
     \<and> dom (files w') =
          {''config/training_config.json'', ''models/micromentor_edge.tflite'',
           ''models/micromentor_model.h5'', ''models/tfjs/saved_model.pb''}
     \<and> calls w' = [Fit_call 800 200 5 32 train_callbacks, Convert_call [DEFAULT] [Float16]]
          @ replicate 10 (Predict_call [1, 224, 224, 3])
          @ concat (replicate 100 [Time_call, Predict_call [1, 224, 224, 3], Time_call])"
proof -
  have i: "imagenet sample_env = Some [\<lparr>var_trainable = True, var_values = [1, 2]\<rparr>,
                               \<lparr>var_trainable = False, var_values = [3]\<rparr>]"
    by (simp add: sample_env_def)
  have "\<exists>w'. main sample_env sample_world = (w', Inr ())
     \<and> dom (files w') = dom (files sample_world) \<union>
          {''config/training_config.json'', ''models/micromentor_edge.tflite'',
           ''models/micromentor_model.h5'', ''models/tfjs/saved_model.pb''}
     \<and> calls w' = calls sample_world @ [Fit_call 800 200 5 32 train_callbacks, Convert_call [DEFAULT] [Float16]]
          @ replicate 10 (Predict_call [1, 224, 224, 3])
          @ concat (replicate 100 [Time_call, Predict_call [1, 224, 224, 3], Time_call])"
    by (rule main_succeeds [OF _ _ _ _ _ _ _ i]) (simp_all add: sample_world_def)
  moreover have "dom (files sample_world) = {}" "calls sample_world = []"
    by (simp_all add: sample_world_def)
  ultimately show ?thesis by (simp only: Un_empty_left append_Nil)
qed

end
